theory Spec2Isabelle
  imports Main "HOL-Library.Multiset"
begin

section \<open>RoboEyes: the eye animation engine of \<^verbatim>\<open>roboeyes_pygame.py\<close>\<close>

text \<open>
  The engine is the class \<^verbatim>\<open>RoboEyes\<close> with its helper classes \<^verbatim>\<open>StepData\<close>,
  \<^verbatim>\<open>Sequence\<close> and \<^verbatim>\<open>Sequences\<close>. Python's unbounded integers are \<open>int\<close>, and
  \<open>div\<close> on \<open>int\<close> rounds towards minus infinity exactly as Python's \<^verbatim>\<open>//\<close> does.
  Every mutation is explicit state passing on a record of the object's fields. The
  external inputs of a method, namely the values read from \<^verbatim>\<open>pygame.time.get_ticks()\<close>
  and the numbers drawn by \<^verbatim>\<open>random.randint\<close>, are parameters of its model. The
  drawing code at the end of \<^verbatim>\<open>update\<close> writes to the pygame surface only and assigns
  no field of the engine, so it and the colour fields it reads are left out.
\<close>

subsection \<open>Constants\<close>

definition DEFAULT :: int where "DEFAULT = 0"
definition TIRED :: int where "TIRED = 1"
definition ANGRY :: int where "ANGRY = 2"
definition HAPPY :: int where "HAPPY = 3"
definition FROZEN :: int where "FROZEN = 4"
definition SCARY :: int where "SCARY = 5"
definition CURIOUS :: int where "CURIOUS = 6"
definition SAD :: int where "SAD = 7"

definition dir_N :: int where "dir_N = 1"
definition dir_NE :: int where "dir_NE = 2"
definition dir_E :: int where "dir_E = 3"
definition dir_SE :: int where "dir_SE = 4"
definition dir_S :: int where "dir_S = 5"
definition dir_SW :: int where "dir_SW = 6"
definition dir_W :: int where "dir_W = 7"
definition dir_NW :: int where "dir_NW = 8"

subsection \<open>Python values and exceptions\<close>

text \<open>
  An optional boolean argument (\<^verbatim>\<open>left=None\<close>) is a \<open>bool option\<close>; \<open>truthy\<close> is
  Python's truth test on it, which both \<^verbatim>\<open>if left:\<close> and \<^verbatim>\<open>bool(left)\<close> apply.
\<close>

fun truthy :: "bool option \<Rightarrow> bool" where
  "truthy None = False"
| "truthy (Some b) = b"

datatype py_error = ValueError

text \<open>
  A method either returns, leaving the engine in a new state, or raises, leaving the
  engine in the state it had reached when the exception left the method.
\<close>

datatype 'a outcome = Returned 'a | Raised py_error 'a

fun state_of :: "'a outcome \<Rightarrow> 'a" where
  "state_of (Returned s) = s"
| "state_of (Raised e s) = s"

fun has_raised :: "'a outcome \<Rightarrow> bool" where
  "has_raised (Returned s) = False"
| "has_raised (Raised e s) = True"

text \<open>
  \<^verbatim>\<open>random.randint(a, b)\<close> raises ValueError on an empty range and otherwise returns
  some integer of \<open>[a, b]\<close>; the third argument is the entropy that picks it.
\<close>

definition randint :: "int \<Rightarrow> int \<Rightarrow> int \<Rightarrow> py_error + int" where
  "randint a b r = (if b < a then Inl ValueError else Inr (a + r mod (b - a + 1)))"

subsection \<open>StepData and Sequence\<close>

text \<open>
  A step stores a callable. The model keeps the stored value of type \<open>'c\<close> and takes the
  way of calling it on the owner, \<open>call :: 'c \<Rightarrow> 'o \<Rightarrow> 'o\<close>, as a parameter, so that what is
  proved about the scheduler holds for every callback. A sequence is a list (its steps)
  with a name and a start time; the back references \<^verbatim>\<open>owner_seq\<close> and \<^verbatim>\<open>owner\<close> are
  the arguments \<open>start\<close> and \<open>ow\<close>.
\<close>

record 'c StepData =
  step_done :: bool
  ms_timing :: int
  callback :: 'c

definition StepData_init :: "int \<Rightarrow> 'c \<Rightarrow> 'c StepData" where
  "StepData_init ms cb = \<lparr>step_done = False, ms_timing = ms, callback = cb\<rparr>"

definition StepData_update ::
  "('c \<Rightarrow> 'o \<Rightarrow> 'o) \<Rightarrow> int \<Rightarrow> int \<Rightarrow> 'c StepData \<Rightarrow> 'o \<Rightarrow> 'c StepData \<times> 'o" where
  "StepData_update call start ticks st ow =
     (if step_done st then (st, ow)
      else if ticks - start < ms_timing st then (st, ow)
      else (st\<lparr>step_done := True\<rparr>, call (callback st) ow))"

record 'c Sequence =
  name :: string
  u_start :: "int option"
  steps :: "'c StepData list"

definition Sequence_init :: "string \<Rightarrow> 'c Sequence" where
  "Sequence_init nm = \<lparr>name = nm, u_start = None, steps = []\<rparr>"

definition Sequence_step :: "int \<Rightarrow> 'c \<Rightarrow> 'c Sequence \<Rightarrow> 'c Sequence" where
  "Sequence_step ms cb sq = sq\<lparr>steps := steps sq @ [StepData_init ms cb]\<rparr>"

definition Sequence_start :: "int \<Rightarrow> 'c Sequence \<Rightarrow> 'c Sequence" where
  "Sequence_start now sq = sq\<lparr>u_start := Some now\<rparr>"

definition Sequence_reset :: "'c Sequence \<Rightarrow> 'c Sequence" where
  "Sequence_reset sq =
     sq\<lparr>u_start := None, steps := map (\<lambda>st. st\<lparr>step_done := False\<rparr>) (steps sq)\<rparr>"

definition Sequence_done :: "'c Sequence \<Rightarrow> bool" where
  "Sequence_done sq = (case u_start sq of None \<Rightarrow> True | Some t \<Rightarrow> list_all step_done (steps sq))"

text \<open>The loop \<^verbatim>\<open>for s in self: if not s.done: s.update(ticks)\<close>.\<close>

fun steps_loop ::
  "('c \<Rightarrow> 'o \<Rightarrow> 'o) \<Rightarrow> int \<Rightarrow> int \<Rightarrow> 'c StepData list \<Rightarrow> 'o \<Rightarrow> 'c StepData list \<times> 'o" where
  "steps_loop call start ticks [] ow = ([], ow)"
| "steps_loop call start ticks (st # sts) ow =
     (case (if \<not> step_done st then StepData_update call start ticks st ow else (st, ow)) of
        (st', ow') \<Rightarrow>
          (case steps_loop call start ticks sts ow' of
             (sts', ow'') \<Rightarrow> (st' # sts', ow'')))"

definition Sequence_update ::
  "('c \<Rightarrow> 'o \<Rightarrow> 'o) \<Rightarrow> int \<Rightarrow> 'c Sequence \<Rightarrow> 'o \<Rightarrow> 'c Sequence \<times> 'o" where
  "Sequence_update call ticks sq ow =
     (case u_start sq of
        None \<Rightarrow> (sq, ow)
      | Some start \<Rightarrow>
          (case steps_loop call start ticks (steps sq) ow of
             (sts', ow') \<Rightarrow> (sq\<lparr>steps := sts'\<rparr>, ow')))"

text \<open>The loop \<^verbatim>\<open>for seq in self: seq.update(ticks)\<close> of \<^verbatim>\<open>Sequences.update\<close>.\<close>

fun seqs_loop ::
  "('c \<Rightarrow> 'o \<Rightarrow> 'o) \<Rightarrow> int \<Rightarrow> 'c Sequence list \<Rightarrow> 'o \<Rightarrow> 'c Sequence list \<times> 'o" where
  "seqs_loop call ticks [] ow = ([], ow)"
| "seqs_loop call ticks (sq # sqs) ow =
     (case Sequence_update call ticks sq ow of
        (sq', ow') \<Rightarrow>
          (case seqs_loop call ticks sqs ow' of
             (sqs', ow'') \<Rightarrow> (sq' # sqs', ow'')))"

definition Sequences_done :: "'c Sequence list \<Rightarrow> bool" where
  "Sequences_done sqs = list_all Sequence_done sqs"

text \<open>Calling \<^verbatim>\<open>update\<close> of one step, or of one sequence, at each tick of a list in turn.\<close>

fun StepData_updates ::
  "('c \<Rightarrow> 'o \<Rightarrow> 'o) \<Rightarrow> int \<Rightarrow> int list \<Rightarrow> 'c StepData \<Rightarrow> 'o \<Rightarrow> 'c StepData \<times> 'o" where
  "StepData_updates call start [] st ow = (st, ow)"
| "StepData_updates call start (t # ts) st ow =
     (case StepData_update call start t st ow of
        (st', ow') \<Rightarrow> StepData_updates call start ts st' ow')"

fun Sequence_updates ::
  "('c \<Rightarrow> 'o \<Rightarrow> 'o) \<Rightarrow> int list \<Rightarrow> 'c Sequence \<Rightarrow> 'o \<Rightarrow> 'c Sequence \<times> 'o" where
  "Sequence_updates call [] sq ow = (sq, ow)"
| "Sequence_updates call (t # ts) sq ow =
     (case Sequence_update call t sq ow of
        (sq', ow') \<Rightarrow> Sequence_updates call ts sq' ow')"

subsection \<open>The engine state\<close>

text \<open>
  The only callable the engine ever stores in a step is the closure \<^verbatim>\<open>reopen\<close> that
  \<^verbatim>\<open>_schedule_open\<close> builds; it is kept as its two captured variables.
\<close>

datatype reopen_closure = Reopen bool bool

record RoboEyes =
  screen_width :: int
  screen_height :: int
  sequences :: "reopen_closure Sequence list"
  frame_interval :: int
  fps_timer :: int
  space_between_default :: int
  space_between_current :: int
  space_between_next :: int
  eye_l_width_default :: int
  eye_l_height_default :: int
  eye_r_width_default :: int
  eye_r_height_default :: int
  eye_l_width_current :: int
  eye_l_height_current :: int
  eye_r_width_current :: int
  eye_r_height_current :: int
  eye_l_width_next :: int
  eye_l_height_next :: int
  eye_r_width_next :: int
  eye_r_height_next :: int
  eye_l_radius_default :: int
  eye_r_radius_default :: int
  eye_l_radius_current :: int
  eye_r_radius_current :: int
  eye_l_radius_next :: int
  eye_r_radius_next :: int
  eye_l_y_default :: int
  eye_l_x :: int
  eye_l_y :: int
  eye_r_x :: int
  eye_r_y :: int
  eye_l_x_next :: int
  eye_l_y_next :: int
  eye_r_x_next :: int
  eye_r_y_next :: int
  u_mood :: int
  tired :: bool
  angry :: bool
  happy :: bool
  u_curious :: bool
  u_cyclops :: bool
  sad :: bool
  cute :: bool
  eye_l_open :: bool
  eye_r_open :: bool
  autoblinker :: bool
  blink_interval :: int
  blink_interval_variation :: int
  u_next_blink :: int
  idle :: bool
  idle_interval :: int
  idle_interval_variation :: int
  u_next_idle :: int
  u_confused :: bool
  u_laugh :: bool
  confused_animation_timer :: int
  laugh_animation_timer :: int
  confused_duration :: int
  laugh_duration :: int
  u_wink_left :: bool
  u_wink_right :: bool
  wink_timer :: int
  wink_duration :: int


text \<open>
  \<^verbatim>\<open>__init__\<close>. The two clock values are the two reads of \<^verbatim>\<open>get_ticks()\<close> that
  set \<^verbatim>\<open>_next_blink\<close> and \<^verbatim>\<open>_next_idle\<close>.
\<close>

definition RoboEyes_init :: "int \<Rightarrow> int \<Rightarrow> int \<Rightarrow> int \<Rightarrow> int \<Rightarrow> RoboEyes" where
  "RoboEyes_init width height frame_rate t_blink0 t_idle0 =
     \<lparr>screen_width = width,
      screen_height = height,
      sequences = [],
      frame_interval = (if frame_rate > 0 then 1000 div frame_rate else 33),
      fps_timer = 0,
      space_between_default = 60,
      space_between_current = 60,
      space_between_next = 60,
      eye_l_width_default = 80,
      eye_l_height_default = 80,
      eye_r_width_default = 80,
      eye_r_height_default = 80,
      eye_l_width_current = 80,
      eye_l_height_current = 80,
      eye_r_width_current = 80,
      eye_r_height_current = 80,
      eye_l_width_next = 80,
      eye_l_height_next = 80,
      eye_r_width_next = 80,
      eye_r_height_next = 80,
      eye_l_radius_default = 30,
      eye_r_radius_default = 30,
      eye_l_radius_current = 30,
      eye_r_radius_current = 30,
      eye_l_radius_next = 30,
      eye_r_radius_next = 30,
      eye_l_y_default = (height - 80) div 2,
      eye_l_x = (width - (80 + 60 + 80)) div 2,
      eye_l_y = (height - 80) div 2,
      eye_r_x = (width - (80 + 60 + 80)) div 2 + 80 + 60,
      eye_r_y = (height - 80) div 2,
      eye_l_x_next = (width - (80 + 60 + 80)) div 2,
      eye_l_y_next = (height - 80) div 2,
      eye_r_x_next = (width - (80 + 60 + 80)) div 2 + 80 + 60,
      eye_r_y_next = (height - 80) div 2,
      u_mood = DEFAULT,
      tired = False,
      angry = False,
      happy = False,
      u_curious = False,
      u_cyclops = False,
      sad = False,
      cute = False,
      eye_l_open = True,
      eye_r_open = True,
      autoblinker = False,
      blink_interval = 1000,
      blink_interval_variation = 2000,
      u_next_blink = t_blink0 + 1000,
      idle = False,
      idle_interval = 1500,
      idle_interval_variation = 1500,
      u_next_idle = t_idle0 + 1500,
      u_confused = False,
      u_laugh = False,
      confused_animation_timer = 0,
      laugh_animation_timer = 0,
      confused_duration = 500,
      laugh_duration = 500,
      u_wink_left = False,
      u_wink_right = False,
      wink_timer = 0,
      wink_duration = 300\<rparr>"

subsection \<open>Configuration\<close>

definition set_framerate :: "int \<Rightarrow> RoboEyes \<Rightarrow> RoboEyes" where
  "set_framerate fps s = s\<lparr>frame_interval := (if fps > 0 then 1000 div fps else 33)\<rparr>"

definition eyes_width :: "int option \<Rightarrow> int option \<Rightarrow> RoboEyes \<Rightarrow> RoboEyes" where
  "eyes_width left_eye right_eye s =
     (let s1 = (case left_eye of None \<Rightarrow> s
                | Some v \<Rightarrow> s\<lparr>eye_l_width_next := v, eye_l_width_default := v\<rparr>)
      in (case right_eye of None \<Rightarrow> s1
          | Some v \<Rightarrow> s1\<lparr>eye_r_width_next := v, eye_r_width_default := v\<rparr>))"

definition eyes_height :: "int option \<Rightarrow> int option \<Rightarrow> RoboEyes \<Rightarrow> RoboEyes" where
  "eyes_height left_eye right_eye s =
     (let s1 = (case left_eye of None \<Rightarrow> s
                | Some v \<Rightarrow> s\<lparr>eye_l_height_next := v, eye_l_height_default := v\<rparr>)
      in (case right_eye of None \<Rightarrow> s1
          | Some v \<Rightarrow> s1\<lparr>eye_r_height_next := v, eye_r_height_default := v\<rparr>))"

definition eyes_radius :: "int option \<Rightarrow> int option \<Rightarrow> RoboEyes \<Rightarrow> RoboEyes" where
  "eyes_radius left_eye right_eye s =
     (let s1 = (case left_eye of None \<Rightarrow> s
                | Some v \<Rightarrow> s\<lparr>eye_l_radius_next := v, eye_l_radius_default := v\<rparr>)
      in (case right_eye of None \<Rightarrow> s1
          | Some v \<Rightarrow> s1\<lparr>eye_r_radius_next := v, eye_r_radius_default := v\<rparr>))"

definition eyes_spacing :: "int \<Rightarrow> RoboEyes \<Rightarrow> RoboEyes" where
  "eyes_spacing space s = s\<lparr>space_between_next := space, space_between_default := space\<rparr>"

text \<open>The property \<^verbatim>\<open>mood\<close>: its getter, its setter and \<^verbatim>\<open>set_mood\<close>.\<close>

definition mood :: "RoboEyes \<Rightarrow> int" where
  "mood s = u_mood s"

definition mood_setter :: "int \<Rightarrow> RoboEyes \<Rightarrow> RoboEyes" where
  "mood_setter v s =
     s\<lparr>u_mood := v,
       tired := (v = TIRED \<or> v = SCARY),
       angry := (v = ANGRY),
       happy := (v = HAPPY),
       u_curious := (v = CURIOUS),
       sad := (v = SAD)\<rparr>"

definition set_mood :: "int \<Rightarrow> RoboEyes \<Rightarrow> RoboEyes" where
  "set_mood v s = mood_setter v s"

definition set_cyclops :: "bool \<Rightarrow> RoboEyes \<Rightarrow> RoboEyes" where
  "set_cyclops v s = s\<lparr>u_cyclops := v\<rparr>"

definition cyclops :: "RoboEyes \<Rightarrow> bool" where
  "cyclops s = u_cyclops s"

definition curious :: "RoboEyes \<Rightarrow> bool" where
  "curious s = u_curious s"

definition set_curious :: "bool \<Rightarrow> RoboEyes \<Rightarrow> RoboEyes" where
  "set_curious v s = s\<lparr>u_curious := v\<rparr>"

text \<open>
  The intervals of \<^verbatim>\<open>set_auto_blinker\<close> and \<^verbatim>\<open>set_idle_mode\<close> are given in seconds and
  stored as \<^verbatim>\<open>int(interval*1000)\<close>; the model takes whole seconds, the callers of the
  repository pass \<open>3\<close> and \<open>2\<close>.
\<close>

definition set_auto_blinker :: "bool \<Rightarrow> int option \<Rightarrow> int option \<Rightarrow> int \<Rightarrow> RoboEyes \<Rightarrow> RoboEyes" where
  "set_auto_blinker active interval variation now s =
     (let s1 = s\<lparr>autoblinker := active\<rparr>;
          s2 = (case interval of None \<Rightarrow> s1 | Some i \<Rightarrow> s1\<lparr>blink_interval := i * 1000\<rparr>);
          s3 = (case variation of None \<Rightarrow> s2 | Some v \<Rightarrow> s2\<lparr>blink_interval_variation := v * 1000\<rparr>)
      in s3\<lparr>u_next_blink := now + blink_interval s3\<rparr>)"

definition set_idle_mode :: "bool \<Rightarrow> int option \<Rightarrow> int option \<Rightarrow> int \<Rightarrow> RoboEyes \<Rightarrow> RoboEyes" where
  "set_idle_mode active interval variation now s =
     (let s1 = s\<lparr>idle := active\<rparr>;
          s2 = (case interval of None \<Rightarrow> s1 | Some i \<Rightarrow> s1\<lparr>idle_interval := i * 1000\<rparr>);
          s3 = (case variation of None \<Rightarrow> s2 | Some v \<Rightarrow> s2\<lparr>idle_interval_variation := v * 1000\<rparr>)
      in s3\<lparr>u_next_idle := now + idle_interval s3\<rparr>)"

definition set_cute :: "bool \<Rightarrow> RoboEyes \<Rightarrow> RoboEyes" where
  "set_cute enabled s = s\<lparr>cute := enabled\<rparr>"

definition position_setter :: "int \<Rightarrow> RoboEyes \<Rightarrow> RoboEyes" where
  "position_setter direction s =
     (let max_x = screen_width s -
            (eye_l_width_current s + space_between_current s +
             (if u_cyclops s then 0 else eye_r_width_current s));
          max_y = screen_height s - eye_l_height_current s
      in if direction = dir_N then s\<lparr>eye_l_x_next := max_x div 2, eye_l_y_next := 0\<rparr>
         else if direction = dir_NE then s\<lparr>eye_l_x_next := max_x, eye_l_y_next := 0\<rparr>
         else if direction = dir_E then s\<lparr>eye_l_x_next := max_x, eye_l_y_next := max_y div 2\<rparr>
         else if direction = dir_SE then s\<lparr>eye_l_x_next := max_x, eye_l_y_next := max_y\<rparr>
         else if direction = dir_S then s\<lparr>eye_l_x_next := max_x div 2, eye_l_y_next := max_y\<rparr>
         else if direction = dir_SW then s\<lparr>eye_l_x_next := 0, eye_l_y_next := max_y\<rparr>
         else if direction = dir_W then s\<lparr>eye_l_x_next := 0, eye_l_y_next := max_y div 2\<rparr>
         else if direction = dir_NW then s\<lparr>eye_l_x_next := 0, eye_l_y_next := 0\<rparr>
         else s\<lparr>eye_l_x_next := max_x div 2, eye_l_y_next := max_y div 2\<rparr>)"

definition set_position :: "int \<Rightarrow> RoboEyes \<Rightarrow> RoboEyes" where
  "set_position v s = position_setter v s"

subsection \<open>Blink and wink\<close>

text \<open>The closure \<^verbatim>\<open>reopen(robo)\<close> of \<^verbatim>\<open>_schedule_open\<close>, and calling a stored closure.\<close>

definition reopen :: "bool \<Rightarrow> bool \<Rightarrow> RoboEyes \<Rightarrow> RoboEyes" where
  "reopen left right robo =
     (let r1 = (if left
                then robo\<lparr>eye_l_height_next := eye_l_height_default robo, eye_l_open := True\<rparr>
                else robo)
      in if right \<and> \<not> u_cyclops r1
         then r1\<lparr>eye_r_height_next := eye_r_height_default r1, eye_r_open := True\<rparr>
         else r1)"

fun call_closure :: "reopen_closure \<Rightarrow> RoboEyes \<Rightarrow> RoboEyes" where
  "call_closure (Reopen left right) robo = reopen left right robo"

text \<open>
  \<^verbatim>\<open>Sequences.add\<close> appends a fresh sequence and returns it; \<^verbatim>\<open>_schedule_open\<close> then
  adds the step to that same object and starts it, so the list ends with the started
  one-step sequence. \<open>now\<close> is the clock read by \<^verbatim>\<open>seq.start()\<close>.
\<close>

definition Sequences_add :: "string \<Rightarrow> 'c Sequence list \<Rightarrow> 'c Sequence list" where
  "Sequences_add nm sqs = sqs @ [Sequence_init nm]"

definition u_schedule_open :: "bool \<Rightarrow> bool \<Rightarrow> int \<Rightarrow> RoboEyes \<Rightarrow> RoboEyes" where
  "u_schedule_open left right now s =
     s\<lparr>sequences :=
         butlast (Sequences_add ''blink'' (sequences s)) @
         [Sequence_start now
            (Sequence_step 120 (Reopen left right)
               (last (Sequences_add ''blink'' (sequences s))))]\<rparr>"

definition blink :: "bool option \<Rightarrow> bool option \<Rightarrow> int \<Rightarrow> RoboEyes \<Rightarrow> RoboEyes" where
  "blink left right now s =
     (if left = None \<and> right = None
      then u_schedule_open True True now
             (s\<lparr>eye_l_height_next := 1,
                eye_r_height_next := (if \<not> u_cyclops s then 1 else 0),
                eye_l_open := False,
                eye_r_open := (\<not> u_cyclops s)\<rparr>)
      else
        (let s1 = (if truthy left then s\<lparr>eye_l_height_next := 1, eye_l_open := False\<rparr> else s);
             s2 = (if truthy right \<and> \<not> u_cyclops s1
                   then s1\<lparr>eye_r_height_next := 1, eye_r_open := False\<rparr> else s1)
         in u_schedule_open (truthy left) (truthy right) now s2))"

definition wink :: "bool option \<Rightarrow> bool option \<Rightarrow> int \<Rightarrow> RoboEyes \<Rightarrow> RoboEyes outcome" where
  "wink left right now s =
     (if \<not> (truthy left \<or> truthy right) then Raised ValueError s
      else
        (let s1 = s\<lparr>u_wink_left := truthy left, u_wink_right := truthy right, wink_timer := now\<rparr>;
             s2 = (if truthy left then s1\<lparr>eye_l_height_next := 1, eye_l_open := False\<rparr> else s1);
             s3 = (if truthy right \<and> \<not> u_cyclops s2
                   then s2\<lparr>eye_r_height_next := 1, eye_r_open := False\<rparr> else s2)
         in Returned s3))"

definition wink_left :: "int \<Rightarrow> RoboEyes \<Rightarrow> RoboEyes outcome" where
  "wink_left now s =
     (if u_cyclops s then Returned (blink (Some True) None now s)
      else wink (Some True) (Some False) now s)"

definition wink_right :: "int \<Rightarrow> RoboEyes \<Rightarrow> RoboEyes outcome" where
  "wink_right now s =
     (if u_cyclops s then Returned (blink None (Some True) now s)
      else wink (Some False) (Some True) now s)"

definition confuse :: "int \<Rightarrow> RoboEyes \<Rightarrow> RoboEyes" where
  "confuse now s = s\<lparr>u_confused := True, confused_animation_timer := now\<rparr>"

definition laugh :: "int \<Rightarrow> RoboEyes \<Rightarrow> RoboEyes" where
  "laugh now s = s\<lparr>u_laugh := True, laugh_animation_timer := now\<rparr>"


subsection \<open>The update loop\<close>

text \<open>
  What one call of \<^verbatim>\<open>update\<close> reads from outside: the clock in
  \<^verbatim>\<open>Sequences.update\<close>, the clock \<^verbatim>\<open>now\<close> in \<^verbatim>\<open>update\<close> itself, the clock in
  the \<^verbatim>\<open>seq.start()\<close> of an automatic blink, and the entropy of the four
  \<^verbatim>\<open>random.randint\<close> calls.
\<close>

record readings =
  t_seq :: int
  t_now :: int
  t_blink :: int
  r_blink_jitter :: int
  r_idle_x :: int
  r_idle_y :: int
  r_idle_jitter :: int

definition Sequences_update :: "int \<Rightarrow> RoboEyes \<Rightarrow> RoboEyes" where
  "Sequences_update ticks s =
     (case seqs_loop call_closure ticks (sequences s) s of
        (sqs', s') \<Rightarrow> s'\<lparr>sequences := sqs'\<rparr>)"

definition lerp :: "int \<Rightarrow> int \<Rightarrow> int" where
  "lerp a b = (a + b) div 2"

text \<open>The block \<^verbatim>\<open># Auto blink\<close>.\<close>

definition auto_blink :: "readings \<Rightarrow> RoboEyes \<Rightarrow> RoboEyes outcome" where
  "auto_blink rd s =
     (if autoblinker s \<and> t_now rd \<ge> u_next_blink s
      then (let s1 = blink None None (t_blink rd) s
            in case randint 0 (blink_interval_variation s1) (r_blink_jitter rd) of
                 Inl e \<Rightarrow> Raised e s1
               | Inr jitter \<Rightarrow>
                   Returned (s1\<lparr>u_next_blink := t_now rd + blink_interval s1 + jitter\<rparr>))
      else Returned s)"

text \<open>The block \<^verbatim>\<open># Idle reposition\<close>.\<close>

definition idle_reposition :: "readings \<Rightarrow> RoboEyes \<Rightarrow> RoboEyes outcome" where
  "idle_reposition rd s =
     (if idle s \<and> t_now rd \<ge> u_next_idle s
      then (let max_x = screen_width s -
                  (eye_l_width_current s + space_between_current s +
                   (if u_cyclops s then 0 else eye_r_width_current s));
                max_y = screen_height s - eye_l_height_current s
            in case randint 0 max_x (r_idle_x rd) of
                 Inl e \<Rightarrow> Raised e s
               | Inr x \<Rightarrow>
                   (let s1 = s\<lparr>eye_l_x_next := x\<rparr>
                    in case randint 0 max_y (r_idle_y rd) of
                         Inl e \<Rightarrow> Raised e s1
                       | Inr y \<Rightarrow>
                           (let s2 = s1\<lparr>eye_l_y_next := y\<rparr>
                            in case randint 0 (idle_interval_variation s2) (r_idle_jitter rd) of
                                 Inl e \<Rightarrow> Raised e s2
                               | Inr jitter \<Rightarrow>
                                   Returned
                                     (s2\<lparr>u_next_idle :=
                                           t_now rd + idle_interval s2 + jitter\<rparr>))))
      else Returned s)"

text \<open>
  The block \<^verbatim>\<open># Interpolate geometry\<close>. The assignments run in the source's order: the
  right eye's targets are computed from the left width and the spacing just
  interpolated, and the right eye's position is interpolated after that.
\<close>

definition interpolate :: "RoboEyes \<Rightarrow> RoboEyes" where
  "interpolate s =
     (let s1 = s\<lparr>eye_l_width_current := lerp (eye_l_width_current s) (eye_l_width_next s),
                 eye_r_width_current := lerp (eye_r_width_current s) (eye_r_width_next s),
                 eye_l_height_current := lerp (eye_l_height_current s) (eye_l_height_next s),
                 eye_r_height_current := lerp (eye_r_height_current s) (eye_r_height_next s),
                 eye_l_radius_current := lerp (eye_l_radius_current s) (eye_l_radius_next s),
                 eye_r_radius_current := lerp (eye_r_radius_current s) (eye_r_radius_next s),
                 space_between_current := lerp (space_between_current s) (space_between_next s),
                 eye_l_x := lerp (eye_l_x s) (eye_l_x_next s),
                 eye_l_y := lerp (eye_l_y s) (eye_l_y_next s)\<rparr>;
          s2 = s1\<lparr>eye_r_x_next :=
                     eye_l_x_next s1 + eye_l_width_current s1 + space_between_current s1,
                   eye_r_y_next := eye_l_y_next s1\<rparr>
      in s2\<lparr>eye_r_x := lerp (eye_r_x s2) (eye_r_x_next s2),
            eye_r_y := lerp (eye_r_y s2) (eye_r_y_next s2)\<rparr>)"

text \<open>The block \<^verbatim>\<open># Handle wink restore\<close>.\<close>

definition wink_restore :: "int \<Rightarrow> RoboEyes \<Rightarrow> RoboEyes" where
  "wink_restore now s =
     (if (u_wink_left s \<or> u_wink_right s) \<and> now - wink_timer s > wink_duration s
      then (let s1 = (if u_wink_left s
                      then s\<lparr>eye_l_height_next := eye_l_height_default s, eye_l_open := True\<rparr>
                      else s);
                s2 = (if u_wink_right s1 \<and> \<not> u_cyclops s1
                      then s1\<lparr>eye_r_height_next := eye_r_height_default s1, eye_r_open := True\<rparr>
                      else s1)
            in s2\<lparr>u_wink_left := False, u_wink_right := False\<rparr>)
      else s)"

text \<open>The blocks \<^verbatim>\<open># Confuse jitter (horizontal)\<close> and \<^verbatim>\<open># Laugh jitter (vertical)\<close>.\<close>

definition confuse_jitter :: "int \<Rightarrow> RoboEyes \<Rightarrow> RoboEyes" where
  "confuse_jitter now s =
     (if u_confused s
      then (if now - confused_animation_timer s < confused_duration s
            then (let s1 = s\<lparr>eye_l_x := eye_l_x s + (if (now div 80) mod 2 \<noteq> 0 then - 20 else 20)\<rparr>
                  in s1\<lparr>eye_r_x := eye_r_x s1 + (if (now div 80) mod 2 \<noteq> 0 then - 20 else 20)\<rparr>)
            else s\<lparr>u_confused := False\<rparr>)
      else s)"

definition laugh_jitter :: "int \<Rightarrow> RoboEyes \<Rightarrow> RoboEyes" where
  "laugh_jitter now s =
     (if u_laugh s
      then (if now - laugh_animation_timer s < laugh_duration s
            then (let s1 = s\<lparr>eye_l_y := eye_l_y s + (if (now div 80) mod 2 \<noteq> 0 then - 15 else 15)\<rparr>
                  in s1\<lparr>eye_r_y := eye_r_y s1 + (if (now div 80) mod 2 \<noteq> 0 then - 15 else 15)\<rparr>)
            else s\<lparr>u_laugh := False\<rparr>)
      else s)"

text \<open>\<^verbatim>\<open>RoboEyes.update\<close>, up to the drawing.\<close>

definition update :: "readings \<Rightarrow> RoboEyes \<Rightarrow> RoboEyes outcome" where
  "update rd s =
     (let s1 = Sequences_update (t_seq rd) s;
          now = t_now rd
      in if now - fps_timer s1 < frame_interval s1 then Returned s1
         else
           (case auto_blink rd (s1\<lparr>fps_timer := now\<rparr>) of
              Raised e s2 \<Rightarrow> Raised e s2
            | Returned s2 \<Rightarrow>
                (case idle_reposition rd s2 of
                   Raised e s3 \<Rightarrow> Raised e s3
                 | Returned s3 \<Rightarrow>
                     Returned
                       (laugh_jitter now
                          (confuse_jitter now (wink_restore now (interpolate s3)))))))"

subsection \<open>Runs of public operations\<close>

text \<open>
  One constructor per public method that assigns a field of the model, with the clock
  value the method reads where it reads one. \<^verbatim>\<open>set_eye_palette\<close> assigns colours
  only and has no constructor.
\<close>

datatype op =
    Set_framerate int
  | Eyes_width "int option" "int option"
  | Eyes_height "int option" "int option"
  | Eyes_radius "int option" "int option"
  | Eyes_spacing int
  | Set_mood int
  | Set_cyclops bool
  | Set_curious bool
  | Set_auto_blinker bool "int option" "int option" int
  | Set_idle_mode bool "int option" "int option" int
  | Set_cute bool
  | Set_position int
  | Blink "bool option" "bool option" int
  | Wink "bool option" "bool option" int
  | Wink_left int
  | Wink_right int
  | Confuse int
  | Laugh int
  | Update readings

fun apply_op :: "op \<Rightarrow> RoboEyes \<Rightarrow> RoboEyes outcome" where
  "apply_op (Set_framerate fps) s = Returned (set_framerate fps s)"
| "apply_op (Eyes_width l r) s = Returned (eyes_width l r s)"
| "apply_op (Eyes_height l r) s = Returned (eyes_height l r s)"
| "apply_op (Eyes_radius l r) s = Returned (eyes_radius l r s)"
| "apply_op (Eyes_spacing v) s = Returned (eyes_spacing v s)"
| "apply_op (Set_mood v) s = Returned (set_mood v s)"
| "apply_op (Set_cyclops v) s = Returned (set_cyclops v s)"
| "apply_op (Set_curious v) s = Returned (set_curious v s)"
| "apply_op (Set_auto_blinker a i v now) s = Returned (set_auto_blinker a i v now s)"
| "apply_op (Set_idle_mode a i v now) s = Returned (set_idle_mode a i v now s)"
| "apply_op (Set_cute v) s = Returned (set_cute v s)"
| "apply_op (Set_position v) s = Returned (set_position v s)"
| "apply_op (Blink l r now) s = Returned (blink l r now s)"
| "apply_op (Wink l r now) s = wink l r now s"
| "apply_op (Wink_left now) s = wink_left now s"
| "apply_op (Wink_right now) s = wink_right now s"
| "apply_op (Confuse now) s = Returned (confuse now s)"
| "apply_op (Laugh now) s = Returned (laugh now s)"
| "apply_op (Update rd) s = update rd s"

text \<open>
  A run of calls on one engine. A caller that catches an exception goes on with the
  engine as the failed call left it, so the run continues from \<open>state_of\<close>.
\<close>

fun run_ops :: "op list \<Rightarrow> RoboEyes \<Rightarrow> RoboEyes" where
  "run_ops [] s = s"
| "run_ops (x # xs) s = run_ops xs (state_of (apply_op x s))"

text \<open>The readings of an update call at which all three clock reads give the same time.\<close>

definition at_time :: "int \<Rightarrow> readings" where
  "at_time t = \<lparr>t_seq = t, t_now = t, t_blink = t,
                r_blink_jitter = 0, r_idle_x = 0, r_idle_y = 0, r_idle_jitter = 0\<rparr>"

text \<open>Calling \<^verbatim>\<open>update\<close> once per reading of a list, as the frame loop does.\<close>

fun updates :: "readings list \<Rightarrow> RoboEyes \<Rightarrow> RoboEyes" where
  "updates [] s = s"
| "updates (rd # rds) s = updates rds (state_of (update rd s))"

text \<open>Applying the interpolation step \<open>k\<close> times towards a fixed target.\<close>

fun lerp_iter :: "nat \<Rightarrow> int \<Rightarrow> int \<Rightarrow> int" where
  "lerp_iter 0 c n = c"
| "lerp_iter (Suc k) c n = lerp_iter k (lerp c n) n"

subsection \<open>Vocabulary of the properties\<close>

fun is_Update :: "op \<Rightarrow> bool" where
  "is_Update (Update rd) = True"
| "is_Update x = False"

text \<open>
  A step is due at a tick when it is not done and its offset has elapsed; a list of
  sequences is quiet at a tick when no step of a started sequence is due.
\<close>

definition step_due :: "int \<Rightarrow> int \<Rightarrow> 'c StepData \<Rightarrow> bool" where
  "step_due start t st = (\<not> step_done st \<and> ms_timing st \<le> t - start)"

definition Sequence_quiet :: "int \<Rightarrow> 'c Sequence \<Rightarrow> bool" where
  "Sequence_quiet t sq =
     (case u_start sq of
        None \<Rightarrow> True
      | Some start \<Rightarrow> list_all (\<lambda>st. \<not> step_due start t st) (steps sq))"

text \<open>
  A list of update calls each of which finds the frame interval elapsed and returns.
\<close>

fun all_processed :: "readings list \<Rightarrow> RoboEyes \<Rightarrow> bool" where
  "all_processed [] s = True"
| "all_processed (rd # rds) s =
     (frame_interval s \<le> t_now rd - fps_timer s \<and> \<not> has_raised (update rd s) \<and>
      all_processed rds (state_of (update rd s)))"

text \<open>
  Operations that configure no eye height below 1, operations that switch the cyclops
  mode on, and the bounds on the heights of one eye that the engine maintains.
\<close>

fun heights_ok :: "op \<Rightarrow> bool" where
  "heights_ok (Eyes_height l r) =
     ((case l of None \<Rightarrow> True | Some v \<Rightarrow> 1 \<le> v) \<and> (case r of None \<Rightarrow> True | Some v \<Rightarrow> 1 \<le> v))"
| "heights_ok x = True"

fun enables_cyclops :: "op \<Rightarrow> bool" where
  "enables_cyclops (Set_cyclops v) = v"
| "enables_cyclops x = False"

definition left_heights_ge1 :: "RoboEyes \<Rightarrow> bool" where
  "left_heights_ge1 s =
     (1 \<le> eye_l_height_current s \<and> 1 \<le> eye_l_height_next s \<and> 1 \<le> eye_l_height_default s)"

definition right_heights_ge1 :: "RoboEyes \<Rightarrow> bool" where
  "right_heights_ge1 s =
     (\<not> u_cyclops s \<and>
      1 \<le> eye_r_height_current s \<and> 1 \<le> eye_r_height_next s \<and> 1 \<le> eye_r_height_default s)"

section \<open>Properties\<close>

lemmas mood_defs =
  DEFAULT_def TIRED_def ANGRY_def HAPPY_def FROZEN_def SCARY_def CURIOUS_def SAD_def

subsection \<open>The loops of the scheduler\<close>

lemma StepData_update_done [simp]:
  "step_done st \<Longrightarrow> StepData_update call start t st ow = (st, ow)"
  by (simp add: StepData_update_def)

lemma steps_loop_Cons:
  "steps_loop call start t (st # sts) ow =
     (fst (StepData_update call start t st ow) #
        fst (steps_loop call start t sts (snd (StepData_update call start t st ow))),
      snd (steps_loop call start t sts (snd (StepData_update call start t st ow))))"
  by (cases "step_done st") (simp_all split: prod.splits)

lemma seqs_loop_Cons:
  "seqs_loop call t (sq # sqs) ow =
     (fst (Sequence_update call t sq ow) #
        fst (seqs_loop call t sqs (snd (Sequence_update call t sq ow))),
      snd (seqs_loop call t sqs (snd (Sequence_update call t sq ow))))"
  by (simp split: prod.splits)

declare steps_loop.simps(2) [simp del] seqs_loop.simps(2) [simp del]

lemma Sequence_update_None:
  "u_start sq = None \<Longrightarrow> Sequence_update call t sq ow = (sq, ow)"
  by (simp add: Sequence_update_def)

lemma Sequence_update_Some:
  "u_start sq = Some start \<Longrightarrow>
   Sequence_update call t sq ow =
     (sq\<lparr>steps := fst (steps_loop call start t (steps sq) ow)\<rparr>,
      snd (steps_loop call start t (steps sq) ow))"
  by (simp add: Sequence_update_def split: prod.splits)

text \<open>A property of the owner that every callback preserves survives the loops.\<close>

lemma StepData_update_pres:
  assumes "\<And>c x. P x \<Longrightarrow> P (call c x)" and "P ow"
  shows "P (snd (StepData_update call start t st ow))"
  using assms by (simp add: StepData_update_def)

lemma steps_loop_pres:
  assumes "\<And>c x. P x \<Longrightarrow> P (call c x)" and "P ow"
  shows "P (snd (steps_loop call start t sts ow))"
  using assms(2)
proof (induction sts arbitrary: ow)
  case Nil
  then show ?case by simp
next
  case (Cons st sts)
  have "P (snd (StepData_update call start t st ow))"
    using assms(1) Cons.prems by (rule StepData_update_pres)
  then show ?case
    unfolding steps_loop_Cons by (simp add: Cons.IH)
qed

lemma Sequence_update_pres:
  assumes "\<And>c x. P x \<Longrightarrow> P (call c x)" and "P ow"
  shows "P (snd (Sequence_update call t sq ow))"
proof (cases "u_start sq")
  case None
  then show ?thesis by (simp add: Sequence_update_None assms(2))
next
  case (Some start)
  have "P (snd (steps_loop call start t (steps sq) ow))"
    using assms by (rule steps_loop_pres)
  then show ?thesis by (simp add: Sequence_update_Some [OF Some])
qed

lemma seqs_loop_pres:
  assumes "\<And>c x. P x \<Longrightarrow> P (call c x)" and "P ow"
  shows "P (snd (seqs_loop call t sqs ow))"
  using assms(2)
proof (induction sqs arbitrary: ow)
  case Nil
  then show ?case by simp
next
  case (Cons sq sqs)
  have "P (snd (Sequence_update call t sq ow))"
    using assms(1) Cons.prems by (rule Sequence_update_pres)
  then show ?case
    unfolding seqs_loop_Cons by (simp add: Cons.IH)
qed

subsection \<open>What each block of the engine leaves alone\<close>

lemma Sequences_update_eq:
  "Sequences_update t s =
     (snd (seqs_loop call_closure t (sequences s) s))
       \<lparr>sequences := fst (seqs_loop call_closure t (sequences s) s)\<rparr>"
  by (simp add: Sequences_update_def split: prod.splits)

lemma Sequences_update_pres:
  assumes "\<And>l r x. P x \<Longrightarrow> P (reopen l r x)"
    and "\<And>x q. P x \<Longrightarrow> P (x\<lparr>sequences := q\<rparr>)"
    and "P s"
  shows "P (Sequences_update t s)"
proof -
  have "P (call_closure c x)" if "P x" for c x
    using that by (cases c) (simp add: assms(1))
  then have "P (snd (seqs_loop call_closure t (sequences s) s))"
    using assms(3) by (rule seqs_loop_pres)
  then show ?thesis
    unfolding Sequences_update_eq by (rule assms(2))
qed

lemma reopen_keeps [simp]:
  "screen_width (reopen left right s) = screen_width s"
  "screen_height (reopen left right s) = screen_height s"
  "sequences (reopen left right s) = sequences s"
  "frame_interval (reopen left right s) = frame_interval s"
  "fps_timer (reopen left right s) = fps_timer s"
  "space_between_default (reopen left right s) = space_between_default s"
  "space_between_current (reopen left right s) = space_between_current s"
  "space_between_next (reopen left right s) = space_between_next s"
  "eye_l_width_default (reopen left right s) = eye_l_width_default s"
  "eye_l_height_default (reopen left right s) = eye_l_height_default s"
  "eye_r_width_default (reopen left right s) = eye_r_width_default s"
  "eye_r_height_default (reopen left right s) = eye_r_height_default s"
  "eye_l_width_current (reopen left right s) = eye_l_width_current s"
  "eye_l_height_current (reopen left right s) = eye_l_height_current s"
  "eye_r_width_current (reopen left right s) = eye_r_width_current s"
  "eye_r_height_current (reopen left right s) = eye_r_height_current s"
  "eye_l_width_next (reopen left right s) = eye_l_width_next s"
  "eye_r_width_next (reopen left right s) = eye_r_width_next s"
  "eye_l_radius_default (reopen left right s) = eye_l_radius_default s"
  "eye_r_radius_default (reopen left right s) = eye_r_radius_default s"
  "eye_l_radius_current (reopen left right s) = eye_l_radius_current s"
  "eye_r_radius_current (reopen left right s) = eye_r_radius_current s"
  "eye_l_radius_next (reopen left right s) = eye_l_radius_next s"
  "eye_r_radius_next (reopen left right s) = eye_r_radius_next s"
  "eye_l_y_default (reopen left right s) = eye_l_y_default s"
  "eye_l_x (reopen left right s) = eye_l_x s"
  "eye_l_y (reopen left right s) = eye_l_y s"
  "eye_r_x (reopen left right s) = eye_r_x s"
  "eye_r_y (reopen left right s) = eye_r_y s"
  "eye_l_x_next (reopen left right s) = eye_l_x_next s"
  "eye_l_y_next (reopen left right s) = eye_l_y_next s"
  "eye_r_x_next (reopen left right s) = eye_r_x_next s"
  "eye_r_y_next (reopen left right s) = eye_r_y_next s"
  "u_mood (reopen left right s) = u_mood s"
  "tired (reopen left right s) = tired s"
  "angry (reopen left right s) = angry s"
  "happy (reopen left right s) = happy s"
  "u_curious (reopen left right s) = u_curious s"
  "u_cyclops (reopen left right s) = u_cyclops s"
  "sad (reopen left right s) = sad s"
  "cute (reopen left right s) = cute s"
  "autoblinker (reopen left right s) = autoblinker s"
  "blink_interval (reopen left right s) = blink_interval s"
  "blink_interval_variation (reopen left right s) = blink_interval_variation s"
  "u_next_blink (reopen left right s) = u_next_blink s"
  "idle (reopen left right s) = idle s"
  "idle_interval (reopen left right s) = idle_interval s"
  "idle_interval_variation (reopen left right s) = idle_interval_variation s"
  "u_next_idle (reopen left right s) = u_next_idle s"
  "u_confused (reopen left right s) = u_confused s"
  "u_laugh (reopen left right s) = u_laugh s"
  "confused_animation_timer (reopen left right s) = confused_animation_timer s"
  "laugh_animation_timer (reopen left right s) = laugh_animation_timer s"
  "confused_duration (reopen left right s) = confused_duration s"
  "laugh_duration (reopen left right s) = laugh_duration s"
  "u_wink_left (reopen left right s) = u_wink_left s"
  "u_wink_right (reopen left right s) = u_wink_right s"
  "wink_timer (reopen left right s) = wink_timer s"
  "wink_duration (reopen left right s) = wink_duration s"
  by (simp_all add: reopen_def Let_def)

lemma Sequences_update_field:
  assumes "\<And>l r x. f (reopen l r x) = f x" and "\<And>x q. f (x\<lparr>sequences := q\<rparr>) = f x"
  shows "f (Sequences_update t s) = f s"
  by (rule Sequences_update_pres [where P = "\<lambda>x. f x = f s"]) (simp_all add: assms)

lemma Sequences_update_keeps [simp]:
  "screen_width (Sequences_update t s) = screen_width s"
  "screen_height (Sequences_update t s) = screen_height s"
  "frame_interval (Sequences_update t s) = frame_interval s"
  "fps_timer (Sequences_update t s) = fps_timer s"
  "space_between_default (Sequences_update t s) = space_between_default s"
  "space_between_current (Sequences_update t s) = space_between_current s"
  "space_between_next (Sequences_update t s) = space_between_next s"
  "eye_l_width_default (Sequences_update t s) = eye_l_width_default s"
  "eye_l_height_default (Sequences_update t s) = eye_l_height_default s"
  "eye_r_width_default (Sequences_update t s) = eye_r_width_default s"
  "eye_r_height_default (Sequences_update t s) = eye_r_height_default s"
  "eye_l_width_current (Sequences_update t s) = eye_l_width_current s"
  "eye_l_height_current (Sequences_update t s) = eye_l_height_current s"
  "eye_r_width_current (Sequences_update t s) = eye_r_width_current s"
  "eye_r_height_current (Sequences_update t s) = eye_r_height_current s"
  "eye_l_width_next (Sequences_update t s) = eye_l_width_next s"
  "eye_r_width_next (Sequences_update t s) = eye_r_width_next s"
  "eye_l_radius_default (Sequences_update t s) = eye_l_radius_default s"
  "eye_r_radius_default (Sequences_update t s) = eye_r_radius_default s"
  "eye_l_radius_current (Sequences_update t s) = eye_l_radius_current s"
  "eye_r_radius_current (Sequences_update t s) = eye_r_radius_current s"
  "eye_l_radius_next (Sequences_update t s) = eye_l_radius_next s"
  "eye_r_radius_next (Sequences_update t s) = eye_r_radius_next s"
  "eye_l_y_default (Sequences_update t s) = eye_l_y_default s"
  "eye_l_x (Sequences_update t s) = eye_l_x s"
  "eye_l_y (Sequences_update t s) = eye_l_y s"
  "eye_r_x (Sequences_update t s) = eye_r_x s"
  "eye_r_y (Sequences_update t s) = eye_r_y s"
  "eye_l_x_next (Sequences_update t s) = eye_l_x_next s"
  "eye_l_y_next (Sequences_update t s) = eye_l_y_next s"
  "eye_r_x_next (Sequences_update t s) = eye_r_x_next s"
  "eye_r_y_next (Sequences_update t s) = eye_r_y_next s"
  "u_mood (Sequences_update t s) = u_mood s"
  "tired (Sequences_update t s) = tired s"
  "angry (Sequences_update t s) = angry s"
  "happy (Sequences_update t s) = happy s"
  "u_curious (Sequences_update t s) = u_curious s"
  "u_cyclops (Sequences_update t s) = u_cyclops s"
  "sad (Sequences_update t s) = sad s"
  "cute (Sequences_update t s) = cute s"
  "autoblinker (Sequences_update t s) = autoblinker s"
  "blink_interval (Sequences_update t s) = blink_interval s"
  "blink_interval_variation (Sequences_update t s) = blink_interval_variation s"
  "u_next_blink (Sequences_update t s) = u_next_blink s"
  "idle (Sequences_update t s) = idle s"
  "idle_interval (Sequences_update t s) = idle_interval s"
  "idle_interval_variation (Sequences_update t s) = idle_interval_variation s"
  "u_next_idle (Sequences_update t s) = u_next_idle s"
  "u_confused (Sequences_update t s) = u_confused s"
  "u_laugh (Sequences_update t s) = u_laugh s"
  "confused_animation_timer (Sequences_update t s) = confused_animation_timer s"
  "laugh_animation_timer (Sequences_update t s) = laugh_animation_timer s"
  "confused_duration (Sequences_update t s) = confused_duration s"
  "laugh_duration (Sequences_update t s) = laugh_duration s"
  "u_wink_left (Sequences_update t s) = u_wink_left s"
  "u_wink_right (Sequences_update t s) = u_wink_right s"
  "wink_timer (Sequences_update t s) = wink_timer s"
  "wink_duration (Sequences_update t s) = wink_duration s"
  by (rule Sequences_update_field; simp)+

lemma u_schedule_open_keeps [simp]:
  "screen_width (u_schedule_open left right now s) = screen_width s"
  "screen_height (u_schedule_open left right now s) = screen_height s"
  "frame_interval (u_schedule_open left right now s) = frame_interval s"
  "fps_timer (u_schedule_open left right now s) = fps_timer s"
  "space_between_default (u_schedule_open left right now s) = space_between_default s"
  "space_between_current (u_schedule_open left right now s) = space_between_current s"
  "space_between_next (u_schedule_open left right now s) = space_between_next s"
  "eye_l_width_default (u_schedule_open left right now s) = eye_l_width_default s"
  "eye_l_height_default (u_schedule_open left right now s) = eye_l_height_default s"
  "eye_r_width_default (u_schedule_open left right now s) = eye_r_width_default s"
  "eye_r_height_default (u_schedule_open left right now s) = eye_r_height_default s"
  "eye_l_width_current (u_schedule_open left right now s) = eye_l_width_current s"
  "eye_l_height_current (u_schedule_open left right now s) = eye_l_height_current s"
  "eye_r_width_current (u_schedule_open left right now s) = eye_r_width_current s"
  "eye_r_height_current (u_schedule_open left right now s) = eye_r_height_current s"
  "eye_l_width_next (u_schedule_open left right now s) = eye_l_width_next s"
  "eye_l_height_next (u_schedule_open left right now s) = eye_l_height_next s"
  "eye_r_width_next (u_schedule_open left right now s) = eye_r_width_next s"
  "eye_r_height_next (u_schedule_open left right now s) = eye_r_height_next s"
  "eye_l_radius_default (u_schedule_open left right now s) = eye_l_radius_default s"
  "eye_r_radius_default (u_schedule_open left right now s) = eye_r_radius_default s"
  "eye_l_radius_current (u_schedule_open left right now s) = eye_l_radius_current s"
  "eye_r_radius_current (u_schedule_open left right now s) = eye_r_radius_current s"
  "eye_l_radius_next (u_schedule_open left right now s) = eye_l_radius_next s"
  "eye_r_radius_next (u_schedule_open left right now s) = eye_r_radius_next s"
  "eye_l_y_default (u_schedule_open left right now s) = eye_l_y_default s"
  "eye_l_x (u_schedule_open left right now s) = eye_l_x s"
  "eye_l_y (u_schedule_open left right now s) = eye_l_y s"
  "eye_r_x (u_schedule_open left right now s) = eye_r_x s"
  "eye_r_y (u_schedule_open left right now s) = eye_r_y s"
  "eye_l_x_next (u_schedule_open left right now s) = eye_l_x_next s"
  "eye_l_y_next (u_schedule_open left right now s) = eye_l_y_next s"
  "eye_r_x_next (u_schedule_open left right now s) = eye_r_x_next s"
  "eye_r_y_next (u_schedule_open left right now s) = eye_r_y_next s"
  "u_mood (u_schedule_open left right now s) = u_mood s"
  "tired (u_schedule_open left right now s) = tired s"
  "angry (u_schedule_open left right now s) = angry s"
  "happy (u_schedule_open left right now s) = happy s"
  "u_curious (u_schedule_open left right now s) = u_curious s"
  "u_cyclops (u_schedule_open left right now s) = u_cyclops s"
  "sad (u_schedule_open left right now s) = sad s"
  "cute (u_schedule_open left right now s) = cute s"
  "eye_l_open (u_schedule_open left right now s) = eye_l_open s"
  "eye_r_open (u_schedule_open left right now s) = eye_r_open s"
  "autoblinker (u_schedule_open left right now s) = autoblinker s"
  "blink_interval (u_schedule_open left right now s) = blink_interval s"
  "blink_interval_variation (u_schedule_open left right now s) = blink_interval_variation s"
  "u_next_blink (u_schedule_open left right now s) = u_next_blink s"
  "idle (u_schedule_open left right now s) = idle s"
  "idle_interval (u_schedule_open left right now s) = idle_interval s"
  "idle_interval_variation (u_schedule_open left right now s) = idle_interval_variation s"
  "u_next_idle (u_schedule_open left right now s) = u_next_idle s"
  "u_confused (u_schedule_open left right now s) = u_confused s"
  "u_laugh (u_schedule_open left right now s) = u_laugh s"
  "confused_animation_timer (u_schedule_open left right now s) = confused_animation_timer s"
  "laugh_animation_timer (u_schedule_open left right now s) = laugh_animation_timer s"
  "confused_duration (u_schedule_open left right now s) = confused_duration s"
  "laugh_duration (u_schedule_open left right now s) = laugh_duration s"
  "u_wink_left (u_schedule_open left right now s) = u_wink_left s"
  "u_wink_right (u_schedule_open left right now s) = u_wink_right s"
  "wink_timer (u_schedule_open left right now s) = wink_timer s"
  "wink_duration (u_schedule_open left right now s) = wink_duration s"
  by (simp_all add: u_schedule_open_def)

lemma blink_keeps [simp]:
  "screen_width (blink left right now s) = screen_width s"
  "screen_height (blink left right now s) = screen_height s"
  "frame_interval (blink left right now s) = frame_interval s"
  "fps_timer (blink left right now s) = fps_timer s"
  "space_between_default (blink left right now s) = space_between_default s"
  "space_between_current (blink left right now s) = space_between_current s"
  "space_between_next (blink left right now s) = space_between_next s"
  "eye_l_width_default (blink left right now s) = eye_l_width_default s"
  "eye_l_height_default (blink left right now s) = eye_l_height_default s"
  "eye_r_width_default (blink left right now s) = eye_r_width_default s"
  "eye_r_height_default (blink left right now s) = eye_r_height_default s"
  "eye_l_width_current (blink left right now s) = eye_l_width_current s"
  "eye_l_height_current (blink left right now s) = eye_l_height_current s"
  "eye_r_width_current (blink left right now s) = eye_r_width_current s"
  "eye_r_height_current (blink left right now s) = eye_r_height_current s"
  "eye_l_width_next (blink left right now s) = eye_l_width_next s"
  "eye_r_width_next (blink left right now s) = eye_r_width_next s"
  "eye_l_radius_default (blink left right now s) = eye_l_radius_default s"
  "eye_r_radius_default (blink left right now s) = eye_r_radius_default s"
  "eye_l_radius_current (blink left right now s) = eye_l_radius_current s"
  "eye_r_radius_current (blink left right now s) = eye_r_radius_current s"
  "eye_l_radius_next (blink left right now s) = eye_l_radius_next s"
  "eye_r_radius_next (blink left right now s) = eye_r_radius_next s"
  "eye_l_y_default (blink left right now s) = eye_l_y_default s"
  "eye_l_x (blink left right now s) = eye_l_x s"
  "eye_l_y (blink left right now s) = eye_l_y s"
  "eye_r_x (blink left right now s) = eye_r_x s"
  "eye_r_y (blink left right now s) = eye_r_y s"
  "eye_l_x_next (blink left right now s) = eye_l_x_next s"
  "eye_l_y_next (blink left right now s) = eye_l_y_next s"
  "eye_r_x_next (blink left right now s) = eye_r_x_next s"
  "eye_r_y_next (blink left right now s) = eye_r_y_next s"
  "u_mood (blink left right now s) = u_mood s"
  "tired (blink left right now s) = tired s"
  "angry (blink left right now s) = angry s"
  "happy (blink left right now s) = happy s"
  "u_curious (blink left right now s) = u_curious s"
  "u_cyclops (blink left right now s) = u_cyclops s"
  "sad (blink left right now s) = sad s"
  "cute (blink left right now s) = cute s"
  "autoblinker (blink left right now s) = autoblinker s"
  "blink_interval (blink left right now s) = blink_interval s"
  "blink_interval_variation (blink left right now s) = blink_interval_variation s"
  "u_next_blink (blink left right now s) = u_next_blink s"
  "idle (blink left right now s) = idle s"
  "idle_interval (blink left right now s) = idle_interval s"
  "idle_interval_variation (blink left right now s) = idle_interval_variation s"
  "u_next_idle (blink left right now s) = u_next_idle s"
  "u_confused (blink left right now s) = u_confused s"
  "u_laugh (blink left right now s) = u_laugh s"
  "confused_animation_timer (blink left right now s) = confused_animation_timer s"
  "laugh_animation_timer (blink left right now s) = laugh_animation_timer s"
  "confused_duration (blink left right now s) = confused_duration s"
  "laugh_duration (blink left right now s) = laugh_duration s"
  "u_wink_left (blink left right now s) = u_wink_left s"
  "u_wink_right (blink left right now s) = u_wink_right s"
  "wink_timer (blink left right now s) = wink_timer s"
  "wink_duration (blink left right now s) = wink_duration s"
  by (simp_all add: blink_def Let_def)

lemma wink_keeps [simp]:
  "screen_width (state_of (wink left right now s)) = screen_width s"
  "screen_height (state_of (wink left right now s)) = screen_height s"
  "sequences (state_of (wink left right now s)) = sequences s"
  "frame_interval (state_of (wink left right now s)) = frame_interval s"
  "fps_timer (state_of (wink left right now s)) = fps_timer s"
  "space_between_default (state_of (wink left right now s)) = space_between_default s"
  "space_between_current (state_of (wink left right now s)) = space_between_current s"
  "space_between_next (state_of (wink left right now s)) = space_between_next s"
  "eye_l_width_default (state_of (wink left right now s)) = eye_l_width_default s"
  "eye_l_height_default (state_of (wink left right now s)) = eye_l_height_default s"
  "eye_r_width_default (state_of (wink left right now s)) = eye_r_width_default s"
  "eye_r_height_default (state_of (wink left right now s)) = eye_r_height_default s"
  "eye_l_width_current (state_of (wink left right now s)) = eye_l_width_current s"
  "eye_l_height_current (state_of (wink left right now s)) = eye_l_height_current s"
  "eye_r_width_current (state_of (wink left right now s)) = eye_r_width_current s"
  "eye_r_height_current (state_of (wink left right now s)) = eye_r_height_current s"
  "eye_l_width_next (state_of (wink left right now s)) = eye_l_width_next s"
  "eye_r_width_next (state_of (wink left right now s)) = eye_r_width_next s"
  "eye_l_radius_default (state_of (wink left right now s)) = eye_l_radius_default s"
  "eye_r_radius_default (state_of (wink left right now s)) = eye_r_radius_default s"
  "eye_l_radius_current (state_of (wink left right now s)) = eye_l_radius_current s"
  "eye_r_radius_current (state_of (wink left right now s)) = eye_r_radius_current s"
  "eye_l_radius_next (state_of (wink left right now s)) = eye_l_radius_next s"
  "eye_r_radius_next (state_of (wink left right now s)) = eye_r_radius_next s"
  "eye_l_y_default (state_of (wink left right now s)) = eye_l_y_default s"
  "eye_l_x (state_of (wink left right now s)) = eye_l_x s"
  "eye_l_y (state_of (wink left right now s)) = eye_l_y s"
  "eye_r_x (state_of (wink left right now s)) = eye_r_x s"
  "eye_r_y (state_of (wink left right now s)) = eye_r_y s"
  "eye_l_x_next (state_of (wink left right now s)) = eye_l_x_next s"
  "eye_l_y_next (state_of (wink left right now s)) = eye_l_y_next s"
  "eye_r_x_next (state_of (wink left right now s)) = eye_r_x_next s"
  "eye_r_y_next (state_of (wink left right now s)) = eye_r_y_next s"
  "u_mood (state_of (wink left right now s)) = u_mood s"
  "tired (state_of (wink left right now s)) = tired s"
  "angry (state_of (wink left right now s)) = angry s"
  "happy (state_of (wink left right now s)) = happy s"
  "u_curious (state_of (wink left right now s)) = u_curious s"
  "u_cyclops (state_of (wink left right now s)) = u_cyclops s"
  "sad (state_of (wink left right now s)) = sad s"
  "cute (state_of (wink left right now s)) = cute s"
  "autoblinker (state_of (wink left right now s)) = autoblinker s"
  "blink_interval (state_of (wink left right now s)) = blink_interval s"
  "blink_interval_variation (state_of (wink left right now s)) = blink_interval_variation s"
  "u_next_blink (state_of (wink left right now s)) = u_next_blink s"
  "idle (state_of (wink left right now s)) = idle s"
  "idle_interval (state_of (wink left right now s)) = idle_interval s"
  "idle_interval_variation (state_of (wink left right now s)) = idle_interval_variation s"
  "u_next_idle (state_of (wink left right now s)) = u_next_idle s"
  "u_confused (state_of (wink left right now s)) = u_confused s"
  "u_laugh (state_of (wink left right now s)) = u_laugh s"
  "confused_animation_timer (state_of (wink left right now s)) = confused_animation_timer s"
  "laugh_animation_timer (state_of (wink left right now s)) = laugh_animation_timer s"
  "confused_duration (state_of (wink left right now s)) = confused_duration s"
  "laugh_duration (state_of (wink left right now s)) = laugh_duration s"
  "wink_duration (state_of (wink left right now s)) = wink_duration s"
  by (simp_all add: wink_def Let_def)

lemma auto_blink_keeps [simp]:
  "screen_width (state_of (auto_blink rd s)) = screen_width s"
  "screen_height (state_of (auto_blink rd s)) = screen_height s"
  "frame_interval (state_of (auto_blink rd s)) = frame_interval s"
  "fps_timer (state_of (auto_blink rd s)) = fps_timer s"
  "space_between_default (state_of (auto_blink rd s)) = space_between_default s"
  "space_between_current (state_of (auto_blink rd s)) = space_between_current s"
  "space_between_next (state_of (auto_blink rd s)) = space_between_next s"
  "eye_l_width_default (state_of (auto_blink rd s)) = eye_l_width_default s"
  "eye_l_height_default (state_of (auto_blink rd s)) = eye_l_height_default s"
  "eye_r_width_default (state_of (auto_blink rd s)) = eye_r_width_default s"
  "eye_r_height_default (state_of (auto_blink rd s)) = eye_r_height_default s"
  "eye_l_width_current (state_of (auto_blink rd s)) = eye_l_width_current s"
  "eye_l_height_current (state_of (auto_blink rd s)) = eye_l_height_current s"
  "eye_r_width_current (state_of (auto_blink rd s)) = eye_r_width_current s"
  "eye_r_height_current (state_of (auto_blink rd s)) = eye_r_height_current s"
  "eye_l_width_next (state_of (auto_blink rd s)) = eye_l_width_next s"
  "eye_r_width_next (state_of (auto_blink rd s)) = eye_r_width_next s"
  "eye_l_radius_default (state_of (auto_blink rd s)) = eye_l_radius_default s"
  "eye_r_radius_default (state_of (auto_blink rd s)) = eye_r_radius_default s"
  "eye_l_radius_current (state_of (auto_blink rd s)) = eye_l_radius_current s"
  "eye_r_radius_current (state_of (auto_blink rd s)) = eye_r_radius_current s"
  "eye_l_radius_next (state_of (auto_blink rd s)) = eye_l_radius_next s"
  "eye_r_radius_next (state_of (auto_blink rd s)) = eye_r_radius_next s"
  "eye_l_y_default (state_of (auto_blink rd s)) = eye_l_y_default s"
  "eye_l_x (state_of (auto_blink rd s)) = eye_l_x s"
  "eye_l_y (state_of (auto_blink rd s)) = eye_l_y s"
  "eye_r_x (state_of (auto_blink rd s)) = eye_r_x s"
  "eye_r_y (state_of (auto_blink rd s)) = eye_r_y s"
  "eye_l_x_next (state_of (auto_blink rd s)) = eye_l_x_next s"
  "eye_l_y_next (state_of (auto_blink rd s)) = eye_l_y_next s"
  "eye_r_x_next (state_of (auto_blink rd s)) = eye_r_x_next s"
  "eye_r_y_next (state_of (auto_blink rd s)) = eye_r_y_next s"
  "u_mood (state_of (auto_blink rd s)) = u_mood s"
  "tired (state_of (auto_blink rd s)) = tired s"
  "angry (state_of (auto_blink rd s)) = angry s"
  "happy (state_of (auto_blink rd s)) = happy s"
  "u_curious (state_of (auto_blink rd s)) = u_curious s"
  "u_cyclops (state_of (auto_blink rd s)) = u_cyclops s"
  "sad (state_of (auto_blink rd s)) = sad s"
  "cute (state_of (auto_blink rd s)) = cute s"
  "autoblinker (state_of (auto_blink rd s)) = autoblinker s"
  "blink_interval (state_of (auto_blink rd s)) = blink_interval s"
  "blink_interval_variation (state_of (auto_blink rd s)) = blink_interval_variation s"
  "idle (state_of (auto_blink rd s)) = idle s"
  "idle_interval (state_of (auto_blink rd s)) = idle_interval s"
  "idle_interval_variation (state_of (auto_blink rd s)) = idle_interval_variation s"
  "u_next_idle (state_of (auto_blink rd s)) = u_next_idle s"
  "u_confused (state_of (auto_blink rd s)) = u_confused s"
  "u_laugh (state_of (auto_blink rd s)) = u_laugh s"
  "confused_animation_timer (state_of (auto_blink rd s)) = confused_animation_timer s"
  "laugh_animation_timer (state_of (auto_blink rd s)) = laugh_animation_timer s"
  "confused_duration (state_of (auto_blink rd s)) = confused_duration s"
  "laugh_duration (state_of (auto_blink rd s)) = laugh_duration s"
  "u_wink_left (state_of (auto_blink rd s)) = u_wink_left s"
  "u_wink_right (state_of (auto_blink rd s)) = u_wink_right s"
  "wink_timer (state_of (auto_blink rd s)) = wink_timer s"
  "wink_duration (state_of (auto_blink rd s)) = wink_duration s"
  by (simp_all add: auto_blink_def Let_def split: sum.splits)

lemma idle_reposition_keeps [simp]:
  "screen_width (state_of (idle_reposition rd s)) = screen_width s"
  "screen_height (state_of (idle_reposition rd s)) = screen_height s"
  "sequences (state_of (idle_reposition rd s)) = sequences s"
  "frame_interval (state_of (idle_reposition rd s)) = frame_interval s"
  "fps_timer (state_of (idle_reposition rd s)) = fps_timer s"
  "space_between_default (state_of (idle_reposition rd s)) = space_between_default s"
  "space_between_current (state_of (idle_reposition rd s)) = space_between_current s"
  "space_between_next (state_of (idle_reposition rd s)) = space_between_next s"
  "eye_l_width_default (state_of (idle_reposition rd s)) = eye_l_width_default s"
  "eye_l_height_default (state_of (idle_reposition rd s)) = eye_l_height_default s"
  "eye_r_width_default (state_of (idle_reposition rd s)) = eye_r_width_default s"
  "eye_r_height_default (state_of (idle_reposition rd s)) = eye_r_height_default s"
  "eye_l_width_current (state_of (idle_reposition rd s)) = eye_l_width_current s"
  "eye_l_height_current (state_of (idle_reposition rd s)) = eye_l_height_current s"
  "eye_r_width_current (state_of (idle_reposition rd s)) = eye_r_width_current s"
  "eye_r_height_current (state_of (idle_reposition rd s)) = eye_r_height_current s"
  "eye_l_width_next (state_of (idle_reposition rd s)) = eye_l_width_next s"
  "eye_l_height_next (state_of (idle_reposition rd s)) = eye_l_height_next s"
  "eye_r_width_next (state_of (idle_reposition rd s)) = eye_r_width_next s"
  "eye_r_height_next (state_of (idle_reposition rd s)) = eye_r_height_next s"
  "eye_l_radius_default (state_of (idle_reposition rd s)) = eye_l_radius_default s"
  "eye_r_radius_default (state_of (idle_reposition rd s)) = eye_r_radius_default s"
  "eye_l_radius_current (state_of (idle_reposition rd s)) = eye_l_radius_current s"
  "eye_r_radius_current (state_of (idle_reposition rd s)) = eye_r_radius_current s"
  "eye_l_radius_next (state_of (idle_reposition rd s)) = eye_l_radius_next s"
  "eye_r_radius_next (state_of (idle_reposition rd s)) = eye_r_radius_next s"
  "eye_l_y_default (state_of (idle_reposition rd s)) = eye_l_y_default s"
  "eye_l_x (state_of (idle_reposition rd s)) = eye_l_x s"
  "eye_l_y (state_of (idle_reposition rd s)) = eye_l_y s"
  "eye_r_x (state_of (idle_reposition rd s)) = eye_r_x s"
  "eye_r_y (state_of (idle_reposition rd s)) = eye_r_y s"
  "eye_r_x_next (state_of (idle_reposition rd s)) = eye_r_x_next s"
  "eye_r_y_next (state_of (idle_reposition rd s)) = eye_r_y_next s"
  "u_mood (state_of (idle_reposition rd s)) = u_mood s"
  "tired (state_of (idle_reposition rd s)) = tired s"
  "angry (state_of (idle_reposition rd s)) = angry s"
  "happy (state_of (idle_reposition rd s)) = happy s"
  "u_curious (state_of (idle_reposition rd s)) = u_curious s"
  "u_cyclops (state_of (idle_reposition rd s)) = u_cyclops s"
  "sad (state_of (idle_reposition rd s)) = sad s"
  "cute (state_of (idle_reposition rd s)) = cute s"
  "eye_l_open (state_of (idle_reposition rd s)) = eye_l_open s"
  "eye_r_open (state_of (idle_reposition rd s)) = eye_r_open s"
  "autoblinker (state_of (idle_reposition rd s)) = autoblinker s"
  "blink_interval (state_of (idle_reposition rd s)) = blink_interval s"
  "blink_interval_variation (state_of (idle_reposition rd s)) = blink_interval_variation s"
  "u_next_blink (state_of (idle_reposition rd s)) = u_next_blink s"
  "idle (state_of (idle_reposition rd s)) = idle s"
  "idle_interval (state_of (idle_reposition rd s)) = idle_interval s"
  "idle_interval_variation (state_of (idle_reposition rd s)) = idle_interval_variation s"
  "u_confused (state_of (idle_reposition rd s)) = u_confused s"
  "u_laugh (state_of (idle_reposition rd s)) = u_laugh s"
  "confused_animation_timer (state_of (idle_reposition rd s)) = confused_animation_timer s"
  "laugh_animation_timer (state_of (idle_reposition rd s)) = laugh_animation_timer s"
  "confused_duration (state_of (idle_reposition rd s)) = confused_duration s"
  "laugh_duration (state_of (idle_reposition rd s)) = laugh_duration s"
  "u_wink_left (state_of (idle_reposition rd s)) = u_wink_left s"
  "u_wink_right (state_of (idle_reposition rd s)) = u_wink_right s"
  "wink_timer (state_of (idle_reposition rd s)) = wink_timer s"
  "wink_duration (state_of (idle_reposition rd s)) = wink_duration s"
  by (simp_all add: idle_reposition_def Let_def split: sum.splits)

lemma interpolate_keeps [simp]:
  "screen_width (interpolate s) = screen_width s"
  "screen_height (interpolate s) = screen_height s"
  "sequences (interpolate s) = sequences s"
  "frame_interval (interpolate s) = frame_interval s"
  "fps_timer (interpolate s) = fps_timer s"
  "space_between_default (interpolate s) = space_between_default s"
  "space_between_next (interpolate s) = space_between_next s"
  "eye_l_width_default (interpolate s) = eye_l_width_default s"
  "eye_l_height_default (interpolate s) = eye_l_height_default s"
  "eye_r_width_default (interpolate s) = eye_r_width_default s"
  "eye_r_height_default (interpolate s) = eye_r_height_default s"
  "eye_l_width_next (interpolate s) = eye_l_width_next s"
  "eye_l_height_next (interpolate s) = eye_l_height_next s"
  "eye_r_width_next (interpolate s) = eye_r_width_next s"
  "eye_r_height_next (interpolate s) = eye_r_height_next s"
  "eye_l_radius_default (interpolate s) = eye_l_radius_default s"
  "eye_r_radius_default (interpolate s) = eye_r_radius_default s"
  "eye_l_radius_next (interpolate s) = eye_l_radius_next s"
  "eye_r_radius_next (interpolate s) = eye_r_radius_next s"
  "eye_l_y_default (interpolate s) = eye_l_y_default s"
  "eye_l_x_next (interpolate s) = eye_l_x_next s"
  "eye_l_y_next (interpolate s) = eye_l_y_next s"
  "u_mood (interpolate s) = u_mood s"
  "tired (interpolate s) = tired s"
  "angry (interpolate s) = angry s"
  "happy (interpolate s) = happy s"
  "u_curious (interpolate s) = u_curious s"
  "u_cyclops (interpolate s) = u_cyclops s"
  "sad (interpolate s) = sad s"
  "cute (interpolate s) = cute s"
  "eye_l_open (interpolate s) = eye_l_open s"
  "eye_r_open (interpolate s) = eye_r_open s"
  "autoblinker (interpolate s) = autoblinker s"
  "blink_interval (interpolate s) = blink_interval s"
  "blink_interval_variation (interpolate s) = blink_interval_variation s"
  "u_next_blink (interpolate s) = u_next_blink s"
  "idle (interpolate s) = idle s"
  "idle_interval (interpolate s) = idle_interval s"
  "idle_interval_variation (interpolate s) = idle_interval_variation s"
  "u_next_idle (interpolate s) = u_next_idle s"
  "u_confused (interpolate s) = u_confused s"
  "u_laugh (interpolate s) = u_laugh s"
  "confused_animation_timer (interpolate s) = confused_animation_timer s"
  "laugh_animation_timer (interpolate s) = laugh_animation_timer s"
  "confused_duration (interpolate s) = confused_duration s"
  "laugh_duration (interpolate s) = laugh_duration s"
  "u_wink_left (interpolate s) = u_wink_left s"
  "u_wink_right (interpolate s) = u_wink_right s"
  "wink_timer (interpolate s) = wink_timer s"
  "wink_duration (interpolate s) = wink_duration s"
  by (simp_all add: interpolate_def Let_def)

lemma wink_restore_keeps [simp]:
  "screen_width (wink_restore now s) = screen_width s"
  "screen_height (wink_restore now s) = screen_height s"
  "sequences (wink_restore now s) = sequences s"
  "frame_interval (wink_restore now s) = frame_interval s"
  "fps_timer (wink_restore now s) = fps_timer s"
  "space_between_default (wink_restore now s) = space_between_default s"
  "space_between_current (wink_restore now s) = space_between_current s"
  "space_between_next (wink_restore now s) = space_between_next s"
  "eye_l_width_default (wink_restore now s) = eye_l_width_default s"
  "eye_l_height_default (wink_restore now s) = eye_l_height_default s"
  "eye_r_width_default (wink_restore now s) = eye_r_width_default s"
  "eye_r_height_default (wink_restore now s) = eye_r_height_default s"
  "eye_l_width_current (wink_restore now s) = eye_l_width_current s"
  "eye_l_height_current (wink_restore now s) = eye_l_height_current s"
  "eye_r_width_current (wink_restore now s) = eye_r_width_current s"
  "eye_r_height_current (wink_restore now s) = eye_r_height_current s"
  "eye_l_width_next (wink_restore now s) = eye_l_width_next s"
  "eye_r_width_next (wink_restore now s) = eye_r_width_next s"
  "eye_l_radius_default (wink_restore now s) = eye_l_radius_default s"
  "eye_r_radius_default (wink_restore now s) = eye_r_radius_default s"
  "eye_l_radius_current (wink_restore now s) = eye_l_radius_current s"
  "eye_r_radius_current (wink_restore now s) = eye_r_radius_current s"
  "eye_l_radius_next (wink_restore now s) = eye_l_radius_next s"
  "eye_r_radius_next (wink_restore now s) = eye_r_radius_next s"
  "eye_l_y_default (wink_restore now s) = eye_l_y_default s"
  "eye_l_x (wink_restore now s) = eye_l_x s"
  "eye_l_y (wink_restore now s) = eye_l_y s"
  "eye_r_x (wink_restore now s) = eye_r_x s"
  "eye_r_y (wink_restore now s) = eye_r_y s"
  "eye_l_x_next (wink_restore now s) = eye_l_x_next s"
  "eye_l_y_next (wink_restore now s) = eye_l_y_next s"
  "eye_r_x_next (wink_restore now s) = eye_r_x_next s"
  "eye_r_y_next (wink_restore now s) = eye_r_y_next s"
  "u_mood (wink_restore now s) = u_mood s"
  "tired (wink_restore now s) = tired s"
  "angry (wink_restore now s) = angry s"
  "happy (wink_restore now s) = happy s"
  "u_curious (wink_restore now s) = u_curious s"
  "u_cyclops (wink_restore now s) = u_cyclops s"
  "sad (wink_restore now s) = sad s"
  "cute (wink_restore now s) = cute s"
  "autoblinker (wink_restore now s) = autoblinker s"
  "blink_interval (wink_restore now s) = blink_interval s"
  "blink_interval_variation (wink_restore now s) = blink_interval_variation s"
  "u_next_blink (wink_restore now s) = u_next_blink s"
  "idle (wink_restore now s) = idle s"
  "idle_interval (wink_restore now s) = idle_interval s"
  "idle_interval_variation (wink_restore now s) = idle_interval_variation s"
  "u_next_idle (wink_restore now s) = u_next_idle s"
  "u_confused (wink_restore now s) = u_confused s"
  "u_laugh (wink_restore now s) = u_laugh s"
  "confused_animation_timer (wink_restore now s) = confused_animation_timer s"
  "laugh_animation_timer (wink_restore now s) = laugh_animation_timer s"
  "confused_duration (wink_restore now s) = confused_duration s"
  "laugh_duration (wink_restore now s) = laugh_duration s"
  "wink_timer (wink_restore now s) = wink_timer s"
  "wink_duration (wink_restore now s) = wink_duration s"
  by (simp_all add: wink_restore_def Let_def)

lemma confuse_jitter_keeps [simp]:
  "screen_width (confuse_jitter now s) = screen_width s"
  "screen_height (confuse_jitter now s) = screen_height s"
  "sequences (confuse_jitter now s) = sequences s"
  "frame_interval (confuse_jitter now s) = frame_interval s"
  "fps_timer (confuse_jitter now s) = fps_timer s"
  "space_between_default (confuse_jitter now s) = space_between_default s"
  "space_between_current (confuse_jitter now s) = space_between_current s"
  "space_between_next (confuse_jitter now s) = space_between_next s"
  "eye_l_width_default (confuse_jitter now s) = eye_l_width_default s"
  "eye_l_height_default (confuse_jitter now s) = eye_l_height_default s"
  "eye_r_width_default (confuse_jitter now s) = eye_r_width_default s"
  "eye_r_height_default (confuse_jitter now s) = eye_r_height_default s"
  "eye_l_width_current (confuse_jitter now s) = eye_l_width_current s"
  "eye_l_height_current (confuse_jitter now s) = eye_l_height_current s"
  "eye_r_width_current (confuse_jitter now s) = eye_r_width_current s"
  "eye_r_height_current (confuse_jitter now s) = eye_r_height_current s"
  "eye_l_width_next (confuse_jitter now s) = eye_l_width_next s"
  "eye_l_height_next (confuse_jitter now s) = eye_l_height_next s"
  "eye_r_width_next (confuse_jitter now s) = eye_r_width_next s"
  "eye_r_height_next (confuse_jitter now s) = eye_r_height_next s"
  "eye_l_radius_default (confuse_jitter now s) = eye_l_radius_default s"
  "eye_r_radius_default (confuse_jitter now s) = eye_r_radius_default s"
  "eye_l_radius_current (confuse_jitter now s) = eye_l_radius_current s"
  "eye_r_radius_current (confuse_jitter now s) = eye_r_radius_current s"
  "eye_l_radius_next (confuse_jitter now s) = eye_l_radius_next s"
  "eye_r_radius_next (confuse_jitter now s) = eye_r_radius_next s"
  "eye_l_y_default (confuse_jitter now s) = eye_l_y_default s"
  "eye_l_y (confuse_jitter now s) = eye_l_y s"
  "eye_r_y (confuse_jitter now s) = eye_r_y s"
  "eye_l_x_next (confuse_jitter now s) = eye_l_x_next s"
  "eye_l_y_next (confuse_jitter now s) = eye_l_y_next s"
  "eye_r_x_next (confuse_jitter now s) = eye_r_x_next s"
  "eye_r_y_next (confuse_jitter now s) = eye_r_y_next s"
  "u_mood (confuse_jitter now s) = u_mood s"
  "tired (confuse_jitter now s) = tired s"
  "angry (confuse_jitter now s) = angry s"
  "happy (confuse_jitter now s) = happy s"
  "u_curious (confuse_jitter now s) = u_curious s"
  "u_cyclops (confuse_jitter now s) = u_cyclops s"
  "sad (confuse_jitter now s) = sad s"
  "cute (confuse_jitter now s) = cute s"
  "eye_l_open (confuse_jitter now s) = eye_l_open s"
  "eye_r_open (confuse_jitter now s) = eye_r_open s"
  "autoblinker (confuse_jitter now s) = autoblinker s"
  "blink_interval (confuse_jitter now s) = blink_interval s"
  "blink_interval_variation (confuse_jitter now s) = blink_interval_variation s"
  "u_next_blink (confuse_jitter now s) = u_next_blink s"
  "idle (confuse_jitter now s) = idle s"
  "idle_interval (confuse_jitter now s) = idle_interval s"
  "idle_interval_variation (confuse_jitter now s) = idle_interval_variation s"
  "u_next_idle (confuse_jitter now s) = u_next_idle s"
  "u_laugh (confuse_jitter now s) = u_laugh s"
  "confused_animation_timer (confuse_jitter now s) = confused_animation_timer s"
  "laugh_animation_timer (confuse_jitter now s) = laugh_animation_timer s"
  "confused_duration (confuse_jitter now s) = confused_duration s"
  "laugh_duration (confuse_jitter now s) = laugh_duration s"
  "u_wink_left (confuse_jitter now s) = u_wink_left s"
  "u_wink_right (confuse_jitter now s) = u_wink_right s"
  "wink_timer (confuse_jitter now s) = wink_timer s"
  "wink_duration (confuse_jitter now s) = wink_duration s"
  by (simp_all add: confuse_jitter_def Let_def)

lemma laugh_jitter_keeps [simp]:
  "screen_width (laugh_jitter now s) = screen_width s"
  "screen_height (laugh_jitter now s) = screen_height s"
  "sequences (laugh_jitter now s) = sequences s"
  "frame_interval (laugh_jitter now s) = frame_interval s"
  "fps_timer (laugh_jitter now s) = fps_timer s"
  "space_between_default (laugh_jitter now s) = space_between_default s"
  "space_between_current (laugh_jitter now s) = space_between_current s"
  "space_between_next (laugh_jitter now s) = space_between_next s"
  "eye_l_width_default (laugh_jitter now s) = eye_l_width_default s"
  "eye_l_height_default (laugh_jitter now s) = eye_l_height_default s"
  "eye_r_width_default (laugh_jitter now s) = eye_r_width_default s"
  "eye_r_height_default (laugh_jitter now s) = eye_r_height_default s"
  "eye_l_width_current (laugh_jitter now s) = eye_l_width_current s"
  "eye_l_height_current (laugh_jitter now s) = eye_l_height_current s"
  "eye_r_width_current (laugh_jitter now s) = eye_r_width_current s"
  "eye_r_height_current (laugh_jitter now s) = eye_r_height_current s"
  "eye_l_width_next (laugh_jitter now s) = eye_l_width_next s"
  "eye_l_height_next (laugh_jitter now s) = eye_l_height_next s"
  "eye_r_width_next (laugh_jitter now s) = eye_r_width_next s"
  "eye_r_height_next (laugh_jitter now s) = eye_r_height_next s"
  "eye_l_radius_default (laugh_jitter now s) = eye_l_radius_default s"
  "eye_r_radius_default (laugh_jitter now s) = eye_r_radius_default s"
  "eye_l_radius_current (laugh_jitter now s) = eye_l_radius_current s"
  "eye_r_radius_current (laugh_jitter now s) = eye_r_radius_current s"
  "eye_l_radius_next (laugh_jitter now s) = eye_l_radius_next s"
  "eye_r_radius_next (laugh_jitter now s) = eye_r_radius_next s"
  "eye_l_y_default (laugh_jitter now s) = eye_l_y_default s"
  "eye_l_x (laugh_jitter now s) = eye_l_x s"
  "eye_r_x (laugh_jitter now s) = eye_r_x s"
  "eye_l_x_next (laugh_jitter now s) = eye_l_x_next s"
  "eye_l_y_next (laugh_jitter now s) = eye_l_y_next s"
  "eye_r_x_next (laugh_jitter now s) = eye_r_x_next s"
  "eye_r_y_next (laugh_jitter now s) = eye_r_y_next s"
  "u_mood (laugh_jitter now s) = u_mood s"
  "tired (laugh_jitter now s) = tired s"
  "angry (laugh_jitter now s) = angry s"
  "happy (laugh_jitter now s) = happy s"
  "u_curious (laugh_jitter now s) = u_curious s"
  "u_cyclops (laugh_jitter now s) = u_cyclops s"
  "sad (laugh_jitter now s) = sad s"
  "cute (laugh_jitter now s) = cute s"
  "eye_l_open (laugh_jitter now s) = eye_l_open s"
  "eye_r_open (laugh_jitter now s) = eye_r_open s"
  "autoblinker (laugh_jitter now s) = autoblinker s"
  "blink_interval (laugh_jitter now s) = blink_interval s"
  "blink_interval_variation (laugh_jitter now s) = blink_interval_variation s"
  "u_next_blink (laugh_jitter now s) = u_next_blink s"
  "idle (laugh_jitter now s) = idle s"
  "idle_interval (laugh_jitter now s) = idle_interval s"
  "idle_interval_variation (laugh_jitter now s) = idle_interval_variation s"
  "u_next_idle (laugh_jitter now s) = u_next_idle s"
  "u_confused (laugh_jitter now s) = u_confused s"
  "confused_animation_timer (laugh_jitter now s) = confused_animation_timer s"
  "laugh_animation_timer (laugh_jitter now s) = laugh_animation_timer s"
  "confused_duration (laugh_jitter now s) = confused_duration s"
  "laugh_duration (laugh_jitter now s) = laugh_duration s"
  "u_wink_left (laugh_jitter now s) = u_wink_left s"
  "u_wink_right (laugh_jitter now s) = u_wink_right s"
  "wink_timer (laugh_jitter now s) = wink_timer s"
  "wink_duration (laugh_jitter now s) = wink_duration s"
  by (simp_all add: laugh_jitter_def Let_def)

lemma update_coalesced:
  "t_now rd - fps_timer s < frame_interval s \<Longrightarrow>
   update rd s = Returned (Sequences_update (t_seq rd) s)"
  by (simp add: update_def Let_def)

lemma update_processed:
  "frame_interval s \<le> t_now rd - fps_timer s \<Longrightarrow>
   update rd s =
     (case auto_blink rd ((Sequences_update (t_seq rd) s)\<lparr>fps_timer := t_now rd\<rparr>) of
        Raised e s2 \<Rightarrow> Raised e s2
      | Returned s2 \<Rightarrow>
          (case idle_reposition rd s2 of
             Raised e s3 \<Rightarrow> Raised e s3
           | Returned s3 \<Rightarrow>
               Returned
                 (laugh_jitter (t_now rd)
                    (confuse_jitter (t_now rd)
                       (wink_restore (t_now rd) (interpolate s3))))))"
  by (simp add: update_def Let_def)

lemma update_Returned_processed:
  assumes "frame_interval s \<le> t_now rd - fps_timer s" and "update rd s = Returned s'"
  obtains s2 s3 where
    "auto_blink rd ((Sequences_update (t_seq rd) s)\<lparr>fps_timer := t_now rd\<rparr>) = Returned s2"
    "idle_reposition rd s2 = Returned s3"
    "s' = laugh_jitter (t_now rd)
            (confuse_jitter (t_now rd) (wink_restore (t_now rd) (interpolate s3)))"
  using assms(2) unfolding update_processed [OF assms(1)]
  by (auto split: outcome.splits)

lemma interpolate_linked:
  "eye_r_x_next (interpolate s) =
     eye_l_x_next (interpolate s) + eye_l_width_current (interpolate s) +
     space_between_current (interpolate s)"
  "eye_r_y_next (interpolate s) = eye_l_y_next (interpolate s)"
  by (simp_all add: interpolate_def Let_def)

subsection \<open>When update returns\<close>

lemma auto_blink_returns:
  "\<not> autoblinker s \<or> 0 \<le> blink_interval_variation s \<Longrightarrow> \<not> has_raised (auto_blink rd s)"
  by (auto simp: auto_blink_def randint_def Let_def)

lemma idle_reposition_off: "\<not> idle s \<Longrightarrow> idle_reposition rd s = Returned s"
  by (simp add: idle_reposition_def)

lemma auto_blink_off: "\<not> autoblinker s \<Longrightarrow> auto_blink rd s = Returned s"
  by (simp add: auto_blink_def)

lemma update_returns:
  assumes "\<not> autoblinker s" and "\<not> idle s"
  shows "update rd s = Returned (state_of (update rd s))"
proof (cases "t_now rd - fps_timer s < frame_interval s")
  case True
  then show ?thesis by (simp add: update_coalesced)
next
  case False
  then have p: "frame_interval s \<le> t_now rd - fps_timer s" by simp
  show ?thesis
    unfolding update_processed [OF p]
    by (simp add: auto_blink_off assms idle_reposition_off)
qed

lemma init_simps:
  "autoblinker (RoboEyes_init w h fr a b) = False"
  "idle (RoboEyes_init w h fr a b) = False"
  "fps_timer (RoboEyes_init w h fr a b) = 0"
  "frame_interval (RoboEyes_init w h fr a b) = (if fr > 0 then 1000 div fr else 33)"
  by (simp_all add: RoboEyes_init_def)

subsection \<open>The scheduler, tick by tick\<close>

lemma StepData_update_not_due:
  "\<not> step_due start t st \<Longrightarrow> StepData_update call start t st ow = (st, ow)"
  by (auto simp: StepData_update_def step_due_def)

lemma StepData_update_due:
  "step_due start t st \<Longrightarrow>
   StepData_update call start t st ow = (st\<lparr>step_done := True\<rparr>, call (callback st) ow)"
  by (auto simp: StepData_update_def step_due_def)

lemma steps_loop_char:
  "steps_loop call start t sts ow =
     (map (\<lambda>st. if step_due start t st then st\<lparr>step_done := True\<rparr> else st) sts,
      fold (\<lambda>st. call (callback st)) (filter (step_due start t) sts) ow)"
proof (induction sts arbitrary: ow)
  case Nil
  show ?case by simp
next
  case (Cons st sts)
  show ?case
  proof (cases "step_due start t st")
    case True
    then have "\<not> step_done st" by (simp add: step_due_def)
    with True show ?thesis
      by (simp add: steps_loop_Cons StepData_update_due Cons.IH)
  next
    case False
    then show ?thesis
      by (simp add: steps_loop_Cons StepData_update_not_due Cons.IH)
  qed
qed

lemma Sequence_update_char:
  "u_start sq = Some start \<Longrightarrow>
   Sequence_update call t sq ow =
     (sq\<lparr>steps := map (\<lambda>st. if step_due start t st then st\<lparr>step_done := True\<rparr> else st) (steps sq)\<rparr>,
      fold (\<lambda>st. call (callback st)) (filter (step_due start t) (steps sq)) ow)"
  by (simp add: Sequence_update_Some steps_loop_char)

lemma StepData_updates_done:
  "step_done st \<Longrightarrow> StepData_updates call start ts st ow = (st, ow)"
  by (induction ts) simp_all

lemma StepData_updates_pending:
  "\<not> step_done st \<Longrightarrow> \<forall>t' \<in> set ts. t' - start < ms_timing st \<Longrightarrow>
   StepData_updates call start ts st ow = (st, ow)"
  by (induction ts) (simp_all add: StepData_update_def)

lemma StepData_updates_append:
  "StepData_updates call start (xs @ ys) st ow =
     StepData_updates call start ys
       (fst (StepData_updates call start xs st ow)) (snd (StepData_updates call start xs st ow))"
  by (induction xs arbitrary: st ow) (simp_all split: prod.splits)

lemma StepData_updates_first_due:
  assumes "\<not> step_done st" and "\<forall>t' \<in> set pre. t' - start < ms_timing st"
    and "ms_timing st \<le> t - start"
  shows "StepData_updates call start (pre @ t # post) st ow =
           (st\<lparr>step_done := True\<rparr>, call (callback st) ow)"
proof -
  have "StepData_update call start t st ow = (st\<lparr>step_done := True\<rparr>, call (callback st) ow)"
    using assms(1,3) by (simp add: StepData_update_due step_due_def)
  then show ?thesis
    by (simp add: StepData_updates_append StepData_updates_pending [OF assms(1,2)]
          StepData_updates_done)
qed

lemma Sequence_updates_unset:
  "u_start sq = None \<Longrightarrow> Sequence_updates call ts sq ow = (sq, ow)"
  by (induction ts) (simp_all add: Sequence_update_None)

lemma undone_after_tick:
  "filter (\<lambda>st. \<not> step_done st)
     (map (\<lambda>st. if step_due start t st then st\<lparr>step_done := True\<rparr> else st) sts) =
   filter (\<lambda>st. \<not> step_due start t st) (filter (\<lambda>st. \<not> step_done st) sts)"
  by (induction sts) (auto simp: step_due_def)

lemma due_among_undone:
  "filter (step_due start t) sts = filter (step_due start t) (filter (\<lambda>st. \<not> step_done st) sts)"
  by (induction sts) (auto simp: step_due_def)

lemma Sequence_updates_at_most_once:
  "\<exists>fired. snd (Sequence_updates call ts sq ow) = fold (\<lambda>st. call (callback st)) fired ow \<and>
           mset fired \<subseteq># mset (filter (\<lambda>st. \<not> step_done st) (steps sq))"
proof (induction ts arbitrary: sq ow)
  case Nil
  have "snd (Sequence_updates call [] sq ow) = fold (\<lambda>st. call (callback st)) [] ow" by simp
  then show ?case by (metis mset.simps(1) subset_mset.bot_least)
next
  case (Cons t ts)
  show ?case
  proof (cases "u_start sq")
    case None
    have "snd (Sequence_updates call (t # ts) sq ow) = fold (\<lambda>st. call (callback st)) [] ow"
      by (simp add: Sequence_updates_unset [OF None])
    then show ?thesis by (metis mset.simps(1) subset_mset.bot_least)
  next
    case (Some start)
    let ?U = "filter (\<lambda>st. \<not> step_done st) (steps sq)"
    let ?F1 = "filter (step_due start t) (steps sq)"
    let ?sq' = "sq\<lparr>steps := map (\<lambda>st. if step_due start t st then st\<lparr>step_done := True\<rparr> else st) (steps sq)\<rparr>"
    let ?ow' = "fold (\<lambda>st. call (callback st)) ?F1 ow"
    have step: "Sequence_update call t sq ow = (?sq', ?ow')"
      using Some by (rule Sequence_update_char)
    from Cons.IH [of ?sq' ?ow'] obtain F2 where
      F2: "snd (Sequence_updates call ts ?sq' ?ow') = fold (\<lambda>st. call (callback st)) F2 ?ow'"
      and sub: "mset F2 \<subseteq># mset (filter (\<lambda>st. \<not> step_done st) (steps ?sq'))"
      by blast
    have sub': "mset F2 \<subseteq># mset (filter (\<lambda>st. \<not> step_due start t st) ?U)"
      using sub by (simp add: undone_after_tick)
    have F1: "mset ?F1 = mset (filter (step_due start t) ?U)"
      using due_among_undone [of start t "steps sq"] by simp
    have "mset (?F1 @ F2) \<subseteq># mset (filter (step_due start t) ?U) + mset (filter (\<lambda>st. \<not> step_due start t st) ?U)"
      using sub' F1 by (simp add: subset_mset.add_left_mono)
    also have "\<dots> = mset ?U"
      by (metis mset_filter multiset_partition)
    finally have incl: "mset (?F1 @ F2) \<subseteq># mset ?U" .
    have "snd (Sequence_updates call (t # ts) sq ow) = fold (\<lambda>st. call (callback st)) (?F1 @ F2) ow"
      by (simp add: step F2)
    with incl show ?thesis by blast
  qed
qed

subsection \<open>Quiet sequences\<close>

lemma steps_loop_quiet:
  "list_all (\<lambda>st. \<not> step_due start t st) sts \<Longrightarrow> steps_loop call start t sts ow = (sts, ow)"
  by (induction sts) (simp_all add: steps_loop_Cons StepData_update_not_due)

lemma Sequence_update_quiet:
  "Sequence_quiet t sq \<Longrightarrow> Sequence_update call t sq ow = (sq, ow)"
  by (cases "u_start sq")
     (simp_all add: Sequence_quiet_def Sequence_update_None Sequence_update_Some steps_loop_quiet)

lemma seqs_loop_quiet:
  "list_all (Sequence_quiet t) sqs \<Longrightarrow> seqs_loop call t sqs ow = (sqs, ow)"
  by (induction sqs) (simp_all add: seqs_loop_Cons Sequence_update_quiet)

lemma Sequences_update_quiet:
  "list_all (Sequence_quiet t) (sequences s) \<Longrightarrow> Sequences_update t s = s"
  by (simp add: Sequences_update_eq seqs_loop_quiet)

lemma Sequences_update_frame:
  "Sequences_update t s =
     s\<lparr>sequences := sequences (Sequences_update t s),
       eye_l_height_next := eye_l_height_next (Sequences_update t s),
       eye_l_open := eye_l_open (Sequences_update t s),
       eye_r_height_next := eye_r_height_next (Sequences_update t s),
       eye_r_open := eye_r_open (Sequences_update t s)\<rparr>"
  by (rule RoboEyes.equality) simp_all

subsection \<open>The halfway step and its iterates\<close>

lemma lerp_step: "lerp c n = n + (c - n) div 2"
proof -
  have "c + n = (c - n) + n * 2" by simp
  then have "(c + n) div 2 = ((c - n) + n * 2) div 2" by simp
  also have "\<dots> = (c - n) div 2 + n" by simp
  finally show ?thesis by (simp add: lerp_def)
qed

lemma lerp_iter_closed: "lerp_iter k c n = n + (c - n) div 2 ^ k"
proof (induction k arbitrary: c)
  case 0
  show ?case by simp
next
  case (Suc k)
  have "lerp_iter (Suc k) c n = n + (lerp c n - n) div 2 ^ k"
    by (simp add: Suc.IH)
  also have "lerp c n - n = (c - n) div 2" by (simp add: lerp_step)
  also have "(c - n) div 2 div 2 ^ k = (c - n) div 2 ^ Suc k"
    by (simp add: zdiv_zmult2_eq)
  finally show ?case .
qed

lemma lerp_between: "min c n \<le> lerp c n \<and> lerp c n \<le> max c n"
  by (auto simp: lerp_def)

lemma lerp_iter_between: "min c n \<le> lerp_iter k c n \<and> lerp_iter k c n \<le> max c n"
proof (induction k arbitrary: c)
  case 0
  show ?case by simp
next
  case (Suc k)
  from Suc.IH [of "lerp c n"] lerp_between [of c n] show ?case by auto
qed

lemma lerp_iter_from_above:
  assumes "n \<le> c"
  shows "lerp_iter k c n = n \<longleftrightarrow> c - n < 2 ^ k"
proof -
  have "(c - n) div 2 ^ k = 0 \<longleftrightarrow> c - n < 2 ^ k"
    using assms by (auto simp: zdiv_eq_0_iff)
  then show ?thesis by (simp add: lerp_iter_closed)
qed

lemma lerp_iter_from_below:
  assumes "c < n"
  shows "lerp_iter k c n < n" and "lerp_iter k c n = n - 1 \<longleftrightarrow> n - c \<le> 2 ^ k"
proof -
  have neg: "(c - n) div 2 ^ k < 0"
    using assms by (simp add: pos_imp_zdiv_neg_iff)
  then show "lerp_iter k c n < n" by (simp add: lerp_iter_closed)
  have "(c - n) div 2 ^ k = - 1 \<longleftrightarrow> - (2 ^ k) \<le> c - n"
  proof
    assume e: "(c - n) div 2 ^ k = - 1"
    have "(c - n) = 2 ^ k * ((c - n) div 2 ^ k) + (c - n) mod 2 ^ k" by simp
    also have "\<dots> = - (2 ^ k) + (c - n) mod 2 ^ k" by (simp add: e)
    finally have "c - n = - (2 ^ k) + (c - n) mod 2 ^ k" .
    moreover have "0 \<le> (c - n) mod (2 ^ k :: int)" by simp
    ultimately show "- (2 ^ k) \<le> c - n" by linarith
  next
    assume b: "- (2 ^ k) \<le> c - n"
    have "(c - n) div 2 ^ k \<ge> - 1"
    proof -
      have "(- (2 ^ k)) div (2 ^ k :: int) \<le> (c - n) div 2 ^ k"
        using b by (intro zdiv_mono1) simp_all
      moreover have "(- (2 ^ k)) div (2 ^ k :: int) = - 1"
        by (simp add: dvd_neg_div)
      ultimately show ?thesis by simp
    qed
    with neg show "(c - n) div 2 ^ k = - 1" by linarith
  qed
  then show "lerp_iter k c n = n - 1 \<longleftrightarrow> n - c \<le> 2 ^ k"
    by (auto simp: lerp_iter_closed)
qed

subsection \<open>One processed tick, field by field\<close>

lemma update_Returned_state:
  assumes "frame_interval s \<le> t_now rd - fps_timer s" and "update rd s = Returned s'"
  shows "s' = laugh_jitter (t_now rd) (confuse_jitter (t_now rd) (wink_restore (t_now rd)
           (interpolate (state_of (idle_reposition rd (state_of (auto_blink rd
              ((Sequences_update (t_seq rd) s)\<lparr>fps_timer := t_now rd\<rparr>))))))))"
proof -
  from assms obtain s2 s3 where
    "auto_blink rd ((Sequences_update (t_seq rd) s)\<lparr>fps_timer := t_now rd\<rparr>) = Returned s2"
    "idle_reposition rd s2 = Returned s3"
    "s' = laugh_jitter (t_now rd)
            (confuse_jitter (t_now rd) (wink_restore (t_now rd) (interpolate s3)))"
    by (rule update_Returned_processed)
  then show ?thesis by simp
qed

lemma interpolate_fields:
  "eye_l_width_current (interpolate s) = lerp (eye_l_width_current s) (eye_l_width_next s)"
  "eye_r_width_current (interpolate s) = lerp (eye_r_width_current s) (eye_r_width_next s)"
  "eye_l_height_current (interpolate s) = lerp (eye_l_height_current s) (eye_l_height_next s)"
  "eye_r_height_current (interpolate s) = lerp (eye_r_height_current s) (eye_r_height_next s)"
  "eye_l_radius_current (interpolate s) = lerp (eye_l_radius_current s) (eye_l_radius_next s)"
  "eye_r_radius_current (interpolate s) = lerp (eye_r_radius_current s) (eye_r_radius_next s)"
  "space_between_current (interpolate s) = lerp (space_between_current s) (space_between_next s)"
  "eye_l_x (interpolate s) = lerp (eye_l_x s) (eye_l_x_next s)"
  "eye_l_y (interpolate s) = lerp (eye_l_y s) (eye_l_y_next s)"
  by (simp_all add: interpolate_def Let_def)

lemma tick_sizes:
  assumes "frame_interval s \<le> t_now rd - fps_timer s" and "update rd s = Returned s'"
  shows "eye_l_width_current s' = lerp (eye_l_width_current s) (eye_l_width_next s)"
    and "eye_l_width_next s' = eye_l_width_next s"
    and "eye_r_width_current s' = lerp (eye_r_width_current s) (eye_r_width_next s)"
    and "eye_r_width_next s' = eye_r_width_next s"
    and "eye_l_radius_current s' = lerp (eye_l_radius_current s) (eye_l_radius_next s)"
    and "eye_l_radius_next s' = eye_l_radius_next s"
    and "eye_r_radius_current s' = lerp (eye_r_radius_current s) (eye_r_radius_next s)"
    and "eye_r_radius_next s' = eye_r_radius_next s"
    and "space_between_current s' = lerp (space_between_current s) (space_between_next s)"
    and "space_between_next s' = space_between_next s"
  unfolding update_Returned_state [OF assms]
  by (simp_all add: interpolate_fields)

lemma auto_blink_not_due:
  "\<not> (autoblinker s \<and> u_next_blink s \<le> t_now rd) \<Longrightarrow> auto_blink rd s = Returned s"
  unfolding auto_blink_def by (rule if_not_P) blast

lemma idle_reposition_not_due:
  "\<not> (idle s \<and> u_next_idle s \<le> t_now rd) \<Longrightarrow> idle_reposition rd s = Returned s"
  unfolding idle_reposition_def by (rule if_not_P) blast

lemma tick_heights:
  assumes "frame_interval s \<le> t_now rd - fps_timer s" and "update rd s = Returned s'"
    and "list_all (Sequence_quiet (t_seq rd)) (sequences s)"
    and "\<not> (autoblinker s \<and> u_next_blink s \<le> t_now rd)"
  shows "eye_l_height_current s' = lerp (eye_l_height_current s) (eye_l_height_next s)"
    and "eye_r_height_current s' = lerp (eye_r_height_current s) (eye_r_height_next s)"
proof -
  have "auto_blink rd (s\<lparr>fps_timer := t_now rd\<rparr>) = Returned (s\<lparr>fps_timer := t_now rd\<rparr>)"
    using assms(4) by (simp add: auto_blink_not_due)
  then have s': "s' = laugh_jitter (t_now rd) (confuse_jitter (t_now rd) (wink_restore (t_now rd)
           (interpolate (state_of (idle_reposition rd (s\<lparr>fps_timer := t_now rd\<rparr>))))))"
    using update_Returned_state [OF assms(1,2)]
    by (simp add: Sequences_update_quiet [OF assms(3)])
  show "eye_l_height_current s' = lerp (eye_l_height_current s) (eye_l_height_next s)"
    and "eye_r_height_current s' = lerp (eye_r_height_current s) (eye_r_height_next s)"
    unfolding s' by (simp_all add: interpolate_fields)
qed

lemma confuse_jitter_off: "\<not> u_confused s \<Longrightarrow> confuse_jitter now s = s"
  by (simp add: confuse_jitter_def)

lemma laugh_jitter_off: "\<not> u_laugh s \<Longrightarrow> laugh_jitter now s = s"
  by (simp add: laugh_jitter_def)

lemma tick_left_x:
  assumes "frame_interval s \<le> t_now rd - fps_timer s" and "update rd s = Returned s'"
    and "\<not> (idle s \<and> u_next_idle s \<le> t_now rd)" and "\<not> u_confused s"
  shows "eye_l_x s' = lerp (eye_l_x s) (eye_l_x_next s)"
proof -
  let ?s2 = "state_of (auto_blink rd ((Sequences_update (t_seq rd) s)\<lparr>fps_timer := t_now rd\<rparr>))"
  have "\<not> (idle ?s2 \<and> u_next_idle ?s2 \<le> t_now rd)"
    using assms(3) by simp
  then have i: "idle_reposition rd ?s2 = Returned ?s2"
    by (rule idle_reposition_not_due)
  have c: "\<not> u_confused (wink_restore (t_now rd) (interpolate ?s2))"
    using assms(4) by simp
  show ?thesis
    unfolding update_Returned_state [OF assms(1,2)] i
    by (simp add: confuse_jitter_off [OF c] interpolate_fields)
qed

lemma tick_left_y:
  assumes "frame_interval s \<le> t_now rd - fps_timer s" and "update rd s = Returned s'"
    and "\<not> (idle s \<and> u_next_idle s \<le> t_now rd)" and "\<not> u_laugh s"
  shows "eye_l_y s' = lerp (eye_l_y s) (eye_l_y_next s)"
proof -
  let ?s2 = "state_of (auto_blink rd ((Sequences_update (t_seq rd) s)\<lparr>fps_timer := t_now rd\<rparr>))"
  have "\<not> (idle ?s2 \<and> u_next_idle ?s2 \<le> t_now rd)"
    using assms(3) by simp
  then have i: "idle_reposition rd ?s2 = Returned ?s2"
    by (rule idle_reposition_not_due)
  have c: "\<not> u_laugh (confuse_jitter (t_now rd) (wink_restore (t_now rd) (interpolate ?s2)))"
    using assms(4) by simp
  show ?thesis
    unfolding update_Returned_state [OF assms(1,2)] i
    by (simp add: laugh_jitter_off [OF c] interpolate_fields)
qed

lemma has_raised_Returned: "\<not> has_raised r \<Longrightarrow> r = Returned (state_of r)"
  by (cases r) simp_all

lemma ticks_left_width:
  "all_processed rds s \<Longrightarrow>
   eye_l_width_next (updates rds s) = eye_l_width_next s \<and>
   eye_l_width_current (updates rds s) =
     lerp_iter (length rds) (eye_l_width_current s) (eye_l_width_next s)"
proof (induction rds arbitrary: s)
  case Nil
  show ?case by simp
next
  case (Cons rd rds)
  let ?s1 = "state_of (update rd s)"
  from Cons.prems have p: "frame_interval s \<le> t_now rd - fps_timer s"
    and r: "update rd s = Returned ?s1" and rest: "all_processed rds ?s1"
    by (simp_all add: has_raised_Returned)
  from Cons.IH [OF rest] tick_sizes(1,2) [OF p r] show ?case by simp
qed

subsection \<open>The reopen step of a blink\<close>

lemma u_schedule_open_eq:
  "u_schedule_open left right now s =
     s\<lparr>sequences := sequences s @
         [Sequence_start now (Sequence_step 120 (Reopen left right) (Sequence_init ''blink''))]\<rparr>"
  by (simp add: u_schedule_open_def Sequences_add_def)

lemma seqs_loop_append:
  "seqs_loop call t (xs @ ys) ow =
     (fst (seqs_loop call t xs ow) @ fst (seqs_loop call t ys (snd (seqs_loop call t xs ow))),
      snd (seqs_loop call t ys (snd (seqs_loop call t xs ow))))"
  by (induction xs arbitrary: ow) (simp_all add: seqs_loop_Cons)

lemma fresh_reopen_sequence_fires:
  "120 \<le> t - now \<Longrightarrow>
   snd (Sequence_update call t
          (Sequence_start now (Sequence_step 120 cb (Sequence_init nm))) ow) = call cb ow"
  by (simp add: Sequence_update_def Sequence_start_def Sequence_step_def Sequence_init_def
        StepData_init_def StepData_update_def steps_loop_Cons)

lemma Sequences_update_last_fires:
  assumes "sequences s = sqs @ [Sequence_start now (Sequence_step 120 (Reopen left right) (Sequence_init nm))]"
    and "120 \<le> t - now"
  shows "\<exists>x q. Sequences_update t s = (reopen left right x)\<lparr>sequences := q\<rparr> \<and>
           eye_l_height_default x = eye_l_height_default s \<and>
           eye_r_height_default x = eye_r_height_default s \<and>
           u_cyclops x = u_cyclops s"
proof -
  let ?x = "snd (seqs_loop call_closure t sqs s)"
  have k: "\<And>f. (\<And>l r y. f (reopen l r y) = f y) \<Longrightarrow> f ?x = f s"
  proof -
    fix f :: "RoboEyes \<Rightarrow> 'a"
    assume a: "\<And>l r y. f (reopen l r y) = f y"
    have c: "f (call_closure c y) = f s" if "f y = f s" for c y
      using that by (cases c) (simp add: a)
    have "(\<lambda>y. f y = f s) (snd (seqs_loop call_closure t sqs s))"
      by (rule seqs_loop_pres [where P = "\<lambda>y. f y = f s"]) (simp_all add: c)
    then show "f ?x = f s" by simp
  qed
  have "Sequences_update t s =
      (reopen left right ?x)\<lparr>sequences := fst (seqs_loop call_closure t (sequences s) s)\<rparr>"
    unfolding Sequences_update_eq
    by (simp add: assms(1) seqs_loop_append seqs_loop_Cons fresh_reopen_sequence_fires [OF assms(2)])
  moreover have "eye_l_height_default ?x = eye_l_height_default s"
    by (rule k) simp
  moreover have "eye_r_height_default ?x = eye_r_height_default s"
    by (rule k) simp
  moreover have "u_cyclops ?x = u_cyclops s"
    by (rule k) simp
  ultimately show ?thesis by blast
qed

subsection \<open>Invariants of update, and the round trip of a blink\<close>

lemma update_invariant:
  assumes seqs: "P (Sequences_update (t_seq rd) s)"
    and fps: "\<And>x. P x \<Longrightarrow> P (x\<lparr>fps_timer := t_now rd\<rparr>)"
    and ab: "\<And>x. P x \<Longrightarrow> P (state_of (auto_blink rd x))"
    and idl: "\<And>x. P x \<Longrightarrow> P (state_of (idle_reposition rd x))"
    and ip: "\<And>x. P x \<Longrightarrow> P (interpolate x)"
    and wr: "\<And>x. P x \<Longrightarrow> P (wink_restore (t_now rd) x)"
    and cj: "\<And>x. P x \<Longrightarrow> P (confuse_jitter (t_now rd) x)"
    and lj: "\<And>x. P x \<Longrightarrow> P (laugh_jitter (t_now rd) x)"
  shows "P (state_of (update rd s))"
proof (cases "t_now rd - fps_timer s < frame_interval s")
  case True
  then show ?thesis by (simp add: update_coalesced seqs)
next
  case False
  then have p: "frame_interval s \<le> t_now rd - fps_timer s" by simp
  let ?s1 = "(Sequences_update (t_seq rd) s)\<lparr>fps_timer := t_now rd\<rparr>"
  have A: "P (state_of (auto_blink rd ?s1))"
    by (intro ab fps seqs)
  show ?thesis
  proof (cases "auto_blink rd ?s1")
    case (Raised e s2)
    with A show ?thesis by (simp add: update_processed [OF p])
  next
    case (Returned s2)
    with A have s2: "P s2" by simp
    have I: "P (state_of (idle_reposition rd s2))"
      using s2 by (rule idl)
    show ?thesis
    proof (cases "idle_reposition rd s2")
      case (Raised e s3)
      with I Returned show ?thesis by (simp add: update_processed [OF p])
    next
      case r3: (Returned s3)
      with I have "P s3" by simp
      then have "P (laugh_jitter (t_now rd)
                  (confuse_jitter (t_now rd) (wink_restore (t_now rd) (interpolate s3))))"
        by (intro lj cj wr ip)
      with Returned r3 show ?thesis by (simp add: update_processed [OF p])
    qed
  qed
qed

lemma blink_left_only:
  "blink (Some True) None now s =
     s\<lparr>eye_l_height_next := 1, eye_l_open := False,
       sequences := sequences s @
         [Sequence_start now (Sequence_step 120 (Reopen True False) (Sequence_init ''blink''))]\<rparr>"
  by (simp add: blink_def u_schedule_open_eq)

lemma blink_right_only_cyclops:
  "u_cyclops s \<Longrightarrow>
   blink None (Some True) now s =
     s\<lparr>sequences := sequences s @
         [Sequence_start now (Sequence_step 120 (Reopen False True) (Sequence_init ''blink''))]\<rparr>"
  by (simp add: blink_def u_schedule_open_eq)

lemma reopen_right_cyclops: "u_cyclops x \<Longrightarrow> reopen False True x = x"
  by (simp add: reopen_def)

lemma left_reopens_after_delay:
  assumes "120 \<le> t_seq rd - now"
    and "\<not> (autoblinker s \<and> u_next_blink s \<le> t_now rd)"
  shows "eye_l_height_next (state_of (update rd (blink (Some True) None now s))) =
           eye_l_height_default s \<and>
         eye_l_open (state_of (update rd (blink (Some True) None now s)))"
proof -
  let ?b = "blink (Some True) None now s"
  let ?P = "\<lambda>x::RoboEyes. eye_l_height_next x = eye_l_height_default s \<and> eye_l_open x \<and>
                 eye_l_height_default x = eye_l_height_default s \<and>
                 \<not> (autoblinker x \<and> u_next_blink x \<le> t_now rd)"
  have sq: "sequences ?b = sequences s @
      [Sequence_start now (Sequence_step 120 (Reopen True False) (Sequence_init ''blink''))]"
    by (simp add: blink_left_only)
  from Sequences_update_last_fires [OF sq assms(1)] obtain x q where
    u: "Sequences_update (t_seq rd) ?b = (reopen True False x)\<lparr>sequences := q\<rparr>"
    and d: "eye_l_height_default x = eye_l_height_default ?b"
    by blast
  have "?P (state_of (update rd ?b))"
  proof (rule update_invariant [where P = ?P])
    have "eye_l_height_next (Sequences_update (t_seq rd) ?b) = eye_l_height_default s \<and>
          eye_l_open (Sequences_update (t_seq rd) ?b)"
      unfolding u using d by (simp add: reopen_def)
    then show "?P (Sequences_update (t_seq rd) ?b)"
      using assms(2) by simp
  next
    fix x :: RoboEyes assume "?P x"
    then show "?P (x\<lparr>fps_timer := t_now rd\<rparr>)" by simp
  next
    fix x :: RoboEyes assume "?P x"
    then show "?P (state_of (auto_blink rd x))" by (simp add: auto_blink_not_due)
  next
    fix x :: RoboEyes assume "?P x"
    then show "?P (state_of (idle_reposition rd x))"
      by (simp add: idle_reposition_def Let_def split: sum.splits)
  next
    fix x :: RoboEyes assume "?P x"
    then show "?P (interpolate x)" by (simp add: interpolate_def Let_def)
  next
    fix x :: RoboEyes assume "?P x"
    then show "?P (wink_restore (t_now rd) x)" by (simp add: wink_restore_def Let_def)
  next
    fix x :: RoboEyes assume "?P x"
    then show "?P (confuse_jitter (t_now rd) x)" by simp
  next
    fix x :: RoboEyes assume "?P x"
    then show "?P (laugh_jitter (t_now rd) x)" by simp
  qed
  then show ?thesis by simp
qed

subsection \<open>The heights of the eyes never drop below 1 on their own\<close>

lemma lerp_ge1: "1 \<le> c \<Longrightarrow> 1 \<le> n \<Longrightarrow> 1 \<le> lerp c n"
  by (simp add: lerp_def)

lemma left_heights_update:
  assumes "left_heights_ge1 s"
  shows "left_heights_ge1 (state_of (update rd s))"
proof (rule update_invariant [where P = left_heights_ge1])
  show "left_heights_ge1 (Sequences_update (t_seq rd) s)"
    by (rule Sequences_update_pres [where P = left_heights_ge1])
       (use assms in \<open>simp_all add: left_heights_ge1_def reopen_def Let_def\<close>)
next
  fix x :: RoboEyes assume "left_heights_ge1 x"
  then show "left_heights_ge1 (x\<lparr>fps_timer := t_now rd\<rparr>)"
    by (simp add: left_heights_ge1_def)
next
  fix x :: RoboEyes assume "left_heights_ge1 x"
  then show "left_heights_ge1 (state_of (auto_blink rd x))"
    by (simp add: left_heights_ge1_def auto_blink_def blink_def Let_def split: sum.splits)
next
  fix x :: RoboEyes assume "left_heights_ge1 x"
  then show "left_heights_ge1 (state_of (idle_reposition rd x))"
    by (simp add: left_heights_ge1_def)
next
  fix x :: RoboEyes assume "left_heights_ge1 x"
  then show "left_heights_ge1 (interpolate x)"
    by (simp add: left_heights_ge1_def interpolate_fields lerp_ge1)
next
  fix x :: RoboEyes assume "left_heights_ge1 x"
  then show "left_heights_ge1 (wink_restore (t_now rd) x)"
    by (simp add: left_heights_ge1_def wink_restore_def Let_def)
next
  fix x :: RoboEyes assume "left_heights_ge1 x"
  then show "left_heights_ge1 (confuse_jitter (t_now rd) x)"
    by (simp add: left_heights_ge1_def)
next
  fix x :: RoboEyes assume "left_heights_ge1 x"
  then show "left_heights_ge1 (laugh_jitter (t_now rd) x)"
    by (simp add: left_heights_ge1_def)
qed

lemma right_heights_update:
  assumes "right_heights_ge1 s"
  shows "right_heights_ge1 (state_of (update rd s))"
proof (rule update_invariant [where P = right_heights_ge1])
  show "right_heights_ge1 (Sequences_update (t_seq rd) s)"
    by (rule Sequences_update_pres [where P = right_heights_ge1])
       (use assms in \<open>simp_all add: right_heights_ge1_def reopen_def Let_def\<close>)
next
  fix x :: RoboEyes assume "right_heights_ge1 x"
  then show "right_heights_ge1 (x\<lparr>fps_timer := t_now rd\<rparr>)"
    by (simp add: right_heights_ge1_def)
next
  fix x :: RoboEyes assume "right_heights_ge1 x"
  then show "right_heights_ge1 (state_of (auto_blink rd x))"
    by (simp add: right_heights_ge1_def auto_blink_def blink_def Let_def split: sum.splits)
next
  fix x :: RoboEyes assume "right_heights_ge1 x"
  then show "right_heights_ge1 (state_of (idle_reposition rd x))"
    by (simp add: right_heights_ge1_def)
next
  fix x :: RoboEyes assume "right_heights_ge1 x"
  then show "right_heights_ge1 (interpolate x)"
    by (simp add: right_heights_ge1_def interpolate_fields lerp_ge1)
next
  fix x :: RoboEyes assume "right_heights_ge1 x"
  then show "right_heights_ge1 (wink_restore (t_now rd) x)"
    by (simp add: right_heights_ge1_def wink_restore_def Let_def)
next
  fix x :: RoboEyes assume "right_heights_ge1 x"
  then show "right_heights_ge1 (confuse_jitter (t_now rd) x)"
    by (simp add: right_heights_ge1_def)
next
  fix x :: RoboEyes assume "right_heights_ge1 x"
  then show "right_heights_ge1 (laugh_jitter (t_now rd) x)"
    by (simp add: right_heights_ge1_def)
qed

lemma left_heights_op:
  assumes "left_heights_ge1 s" and "heights_ok x"
  shows "left_heights_ge1 (state_of (apply_op x s))"
proof (cases x)
  case (Update rd)
  then show ?thesis using assms(1) by (simp add: left_heights_update)
next
  case (Eyes_height l r)
  then show ?thesis using assms
    by (auto simp: left_heights_ge1_def eyes_height_def Let_def split: option.splits)
next
  case (Blink l r now)
  then show ?thesis using assms(1)
    by (simp add: left_heights_ge1_def blink_def Let_def)
next
  case (Wink l r now)
  then show ?thesis using assms(1)
    by (simp add: left_heights_ge1_def wink_def Let_def)
next
  case (Wink_left now)
  then show ?thesis using assms(1)
    by (simp add: left_heights_ge1_def wink_left_def wink_def blink_def Let_def)
next
  case (Wink_right now)
  then show ?thesis using assms(1)
    by (simp add: left_heights_ge1_def wink_right_def wink_def blink_def Let_def)
qed (use assms(1) in \<open>simp_all add: left_heights_ge1_def set_framerate_def eyes_width_def
      eyes_radius_def eyes_spacing_def set_mood_def mood_setter_def set_cyclops_def
      set_curious_def set_auto_blinker_def set_idle_mode_def set_cute_def set_position_def
      position_setter_def confuse_def laugh_def Let_def split: option.splits\<close>)

lemma right_heights_op:
  assumes "right_heights_ge1 s" and "heights_ok x" and "\<not> enables_cyclops x"
  shows "right_heights_ge1 (state_of (apply_op x s))"
proof (cases x)
  case (Update rd)
  then show ?thesis using assms(1) by (simp add: right_heights_update)
next
  case (Eyes_height l r)
  then show ?thesis using assms
    by (auto simp: right_heights_ge1_def eyes_height_def Let_def split: option.splits)
next
  case (Set_cyclops v)
  then show ?thesis using assms
    by (simp add: right_heights_ge1_def set_cyclops_def)
next
  case (Blink l r now)
  then show ?thesis using assms(1)
    by (simp add: right_heights_ge1_def blink_def Let_def)
next
  case (Wink l r now)
  then show ?thesis using assms(1)
    by (simp add: right_heights_ge1_def wink_def Let_def)
next
  case (Wink_left now)
  then show ?thesis using assms(1)
    by (simp add: right_heights_ge1_def wink_left_def wink_def blink_def Let_def)
next
  case (Wink_right now)
  then show ?thesis using assms(1)
    by (simp add: right_heights_ge1_def wink_right_def wink_def blink_def Let_def)
qed (use assms(1) in \<open>simp_all add: right_heights_ge1_def set_framerate_def eyes_width_def
      eyes_radius_def eyes_spacing_def set_mood_def mood_setter_def
      set_curious_def set_auto_blinker_def set_idle_mode_def set_cute_def set_position_def
      position_setter_def confuse_def laugh_def Let_def split: option.splits\<close>)

lemma left_heights_run:
  "left_heights_ge1 s \<Longrightarrow> list_all heights_ok ops \<Longrightarrow> left_heights_ge1 (run_ops ops s)"
  by (induction ops arbitrary: s) (simp_all add: left_heights_op)

lemma right_heights_run:
  "right_heights_ge1 s \<Longrightarrow> list_all heights_ok ops \<Longrightarrow>
   list_all (\<lambda>x. \<not> enables_cyclops x) ops \<Longrightarrow> right_heights_ge1 (run_ops ops s)"
  by (induction ops arbitrary: s) (simp_all add: right_heights_op)

lemma init_heights:
  "left_heights_ge1 (RoboEyes_init w h fr tb ti)" "right_heights_ge1 (RoboEyes_init w h fr tb ti)"
  by (simp_all add: left_heights_ge1_def right_heights_ge1_def RoboEyes_init_def)


section \<open>The claims\<close>

subsection \<open>C9: the right eye's target is derived from the left eye\<close>

lemma other_ops_keep_right_target:
  "\<not> is_Update x \<Longrightarrow>
     eye_r_x_next (state_of (apply_op x s)) = eye_r_x_next s \<and>
     eye_r_y_next (state_of (apply_op x s)) = eye_r_y_next s"
  by (cases x)
     (simp_all add: set_framerate_def eyes_width_def eyes_height_def eyes_radius_def
        eyes_spacing_def set_mood_def mood_setter_def set_cyclops_def set_curious_def
        set_auto_blinker_def set_idle_mode_def set_cute_def set_position_def
        position_setter_def wink_left_def wink_right_def confuse_def laugh_def Let_def
        split: option.splits)

text \<open>
  C9. On every processed update tick (the frame interval has elapsed and the call
  returns) the right eye's next position is rederived from the left eye:
  \<open>eye_r_x_next = eye_l_x_next + eye_l_width_current + space_between_current\<close> and
  \<open>eye_r_y_next = eye_l_y_next\<close>. No public operation other than \<^verbatim>\<open>update\<close> assigns
  the right eye's targets, so they are not independently settable.
\<close>

theorem right_eye_target_derived_from_left:
  "(frame_interval s \<le> t_now rd - fps_timer s \<and> update rd s = Returned s' \<longrightarrow>
      eye_r_x_next s' = eye_l_x_next s' + eye_l_width_current s' + space_between_current s' \<and>
      eye_r_y_next s' = eye_l_y_next s') \<and>
   (\<not> is_Update x \<longrightarrow>
      eye_r_x_next (state_of (apply_op x s)) = eye_r_x_next s \<and>
      eye_r_y_next (state_of (apply_op x s)) = eye_r_y_next s)"
proof (intro conjI impI)
  assume a: "frame_interval s \<le> t_now rd - fps_timer s \<and> update rd s = Returned s'"
  then obtain s3 where
    s': "s' = laugh_jitter (t_now rd)
            (confuse_jitter (t_now rd) (wink_restore (t_now rd) (interpolate s3)))"
    by (blast elim: update_Returned_processed)
  show "eye_r_x_next s' = eye_l_x_next s' + eye_l_width_current s' + space_between_current s'"
    unfolding s' by (simp add: interpolate_linked)
  show "eye_r_y_next s' = eye_l_y_next s'"
    unfolding s' by (simp add: interpolate_linked)
next
  assume "\<not> is_Update x"
  then show "eye_r_x_next (state_of (apply_op x s)) = eye_r_x_next s"
    and "eye_r_y_next (state_of (apply_op x s)) = eye_r_y_next s"
    by (simp_all add: other_ops_keep_right_target)
qed

text \<open>
  The witness: a fresh engine whose spacing has been set to 20; the first processed
  tick moves the spacing to 40 and the right eye's target with it.
\<close>

theorem right_eye_target_derived_from_left_witness:
  "frame_interval (eyes_spacing 20 (RoboEyes_init 400 200 30 0 0)) \<le>
     t_now (at_time 40) - fps_timer (eyes_spacing 20 (RoboEyes_init 400 200 30 0 0)) \<and>
   update (at_time 40) (eyes_spacing 20 (RoboEyes_init 400 200 30 0 0)) =
     Returned (state_of (update (at_time 40) (eyes_spacing 20 (RoboEyes_init 400 200 30 0 0)))) \<and>
   \<not> is_Update (Set_position 3) \<and>
   eye_r_x_next (state_of (update (at_time 40) (eyes_spacing 20 (RoboEyes_init 400 200 30 0 0)))) =
     eye_l_x_next (state_of (update (at_time 40) (eyes_spacing 20 (RoboEyes_init 400 200 30 0 0)))) +
     eye_l_width_current
       (state_of (update (at_time 40) (eyes_spacing 20 (RoboEyes_init 400 200 30 0 0)))) +
     space_between_current
       (state_of (update (at_time 40) (eyes_spacing 20 (RoboEyes_init 400 200 30 0 0)))) \<and>
   eye_r_y_next (state_of (update (at_time 40) (eyes_spacing 20 (RoboEyes_init 400 200 30 0 0)))) =
     eye_l_y_next (state_of (update (at_time 40) (eyes_spacing 20 (RoboEyes_init 400 200 30 0 0)))) \<and>
   eye_r_x_next (state_of (apply_op (Set_position 3) (eyes_spacing 20 (RoboEyes_init 400 200 30 0 0)))) =
     eye_r_x_next (eyes_spacing 20 (RoboEyes_init 400 200 30 0 0))"
proof -
  let ?s = "eyes_spacing 20 (RoboEyes_init 400 200 30 0 0)"
  have h1: "frame_interval ?s \<le> t_now (at_time 40) - fps_timer ?s"
    by code_simp
  have h2: "update (at_time 40) ?s = Returned (state_of (update (at_time 40) ?s))"
    by (rule update_returns) (simp_all add: eyes_spacing_def init_simps)
  have h3: "\<not> is_Update (Set_position 3)" by simp
  show ?thesis
    using h1 h2 h3
      right_eye_target_derived_from_left [of ?s "at_time 40"
        "state_of (update (at_time 40) ?s)" "Set_position 3"]
    by blast
qed

subsection \<open>C4 and C10: the mood setter\<close>

text \<open>
  C4. For every mood value, in particular each of the eight enumerated ones,
  \<^verbatim>\<open>set_mood\<close> returns and afterwards \<open>tired = (value \<in> {TIRED, SCARY})\<close>,
  \<open>angry = (value = ANGRY)\<close>, \<open>happy = (value = HAPPY)\<close>,
  \<open>curious = (value = CURIOUS)\<close>, \<open>sad = (value = SAD)\<close>; at most one of the five
  flags is true; and reading \<^verbatim>\<open>mood\<close> gives the value set.
\<close>

theorem set_mood_flags:
  "mood (set_mood v s) = v \<and>
   (tired (set_mood v s) \<longleftrightarrow> v \<in> {TIRED, SCARY}) \<and>
   (angry (set_mood v s) \<longleftrightarrow> v = ANGRY) \<and>
   (happy (set_mood v s) \<longleftrightarrow> v = HAPPY) \<and>
   (curious (set_mood v s) \<longleftrightarrow> v = CURIOUS) \<and>
   (sad (set_mood v s) \<longleftrightarrow> v = SAD) \<and>
   length (filter id [tired (set_mood v s), happy (set_mood v s), angry (set_mood v s),
                      curious (set_mood v s), sad (set_mood v s)]) \<le> 1"
  by (simp add: set_mood_def mood_setter_def mood_def curious_def mood_defs)

text \<open>
  C10. Setting the mood to a value outside the enumeration does not fail: the value is
  stored, a later read of \<^verbatim>\<open>mood\<close> returns it, and all five derived flags are false.
\<close>

theorem set_mood_unknown_value:
  "v \<notin> {DEFAULT, TIRED, ANGRY, HAPPY, FROZEN, SCARY, CURIOUS, SAD} \<Longrightarrow>
   mood (set_mood v s) = v \<and>
   \<not> tired (set_mood v s) \<and> \<not> angry (set_mood v s) \<and> \<not> happy (set_mood v s) \<and>
   \<not> curious (set_mood v s) \<and> \<not> sad (set_mood v s)"
  by (simp add: set_mood_def mood_setter_def mood_def curious_def)

theorem set_mood_unknown_value_witness:
  "(42::int) \<notin> {DEFAULT, TIRED, ANGRY, HAPPY, FROZEN, SCARY, CURIOUS, SAD} \<and>
   mood (set_mood 42 (RoboEyes_init 400 200 30 0 0)) = 42 \<and>
   \<not> tired (set_mood 42 (RoboEyes_init 400 200 30 0 0)) \<and>
   \<not> angry (set_mood 42 (RoboEyes_init 400 200 30 0 0)) \<and>
   \<not> happy (set_mood 42 (RoboEyes_init 400 200 30 0 0)) \<and>
   \<not> curious (set_mood 42 (RoboEyes_init 400 200 30 0 0)) \<and>
   \<not> sad (set_mood 42 (RoboEyes_init 400 200 30 0 0))"
proof -
  have h: "(42::int) \<notin> {DEFAULT, TIRED, ANGRY, HAPPY, FROZEN, SCARY, CURIOUS, SAD}"
    by (simp add: mood_defs)
  show ?thesis
    using h set_mood_unknown_value [OF h, of "RoboEyes_init 400 200 30 0 0"] by blast
qed

subsection \<open>C3: wink without a side\<close>

text \<open>
  C3. Calling \<^verbatim>\<open>wink\<close> with both arguments false (\<^verbatim>\<open>False\<close> or the default
  \<^verbatim>\<open>None\<close>) raises ValueError at once, and the engine is left exactly as it was:
  the state at the raise is the state before the call.
\<close>

theorem wink_without_side_raises:
  "wink (Some False) (Some False) now s = Raised ValueError s \<and>
   wink None None now s = Raised ValueError s \<and>
   wink (Some False) None now s = Raised ValueError s \<and>
   wink None (Some False) now s = Raised ValueError s"
  by (simp add: wink_def)

subsection \<open>C2: a step fires exactly once\<close>

text \<open>
  C2. In a started sequence one call of \<^verbatim>\<open>update\<close> calls, in list order, the callback
  of exactly the steps that are not done and whose offset has elapsed
  (\<open>ticks - start \<ge> ms_timing\<close>), marks those steps done and leaves every other step as
  it was, so a pending step is checked again at the next tick. Over any list of ticks, a
  step fires at the first tick at which its offset has elapsed and is done from then on
  whatever ticks follow; a step that is done is never called again; over a whole run every
  callback is called at most once. A sequence whose start time is unset (fresh, or
  reset) is reported as done and no number of updates calls any of its steps.
\<close>

theorem sequence_steps_fire_exactly_once:
  fixes call :: "'c \<Rightarrow> 'o \<Rightarrow> 'o"
  shows
  "(u_start sq = Some start \<longrightarrow>
      Sequence_update call t sq ow =
        (sq\<lparr>steps :=
             map (\<lambda>st. if \<not> step_done st \<and> ms_timing st \<le> t - start
                        then st\<lparr>step_done := True\<rparr> else st) (steps sq)\<rparr>,
         fold (\<lambda>st. call (callback st))
           (filter (\<lambda>st. \<not> step_done st \<and> ms_timing st \<le> t - start) (steps sq)) ow)) \<and>
   (\<not> step_done st \<and> (\<forall>t' \<in> set pre. t' - start < ms_timing st) \<and>
    ms_timing st \<le> t - start \<longrightarrow>
      StepData_updates call start (pre @ t # post) st ow =
        (st\<lparr>step_done := True\<rparr>, call (callback st) ow)) \<and>
   (\<not> step_done st \<and> (\<forall>t' \<in> set ts. t' - start < ms_timing st) \<longrightarrow>
      StepData_updates call start ts st ow = (st, ow)) \<and>
   (step_done st \<longrightarrow> StepData_updates call start ts st ow = (st, ow)) \<and>
   (\<exists>fired. snd (Sequence_updates call ts sq ow) = fold (\<lambda>st. call (callback st)) fired ow \<and>
            mset fired \<subseteq># mset (filter (\<lambda>st. \<not> step_done st) (steps sq))) \<and>
   (u_start sq = None \<longrightarrow>
      Sequence_done sq \<and> Sequence_updates call ts sq ow = (sq, ow)) \<and>
   Sequence_done (Sequence_init nm :: 'c Sequence) \<and>
   Sequence_done (Sequence_reset sq)"
proof (intro conjI impI)
  assume "u_start sq = Some start"
  then show "Sequence_update call t sq ow =
        (sq\<lparr>steps :=
             map (\<lambda>st. if \<not> step_done st \<and> ms_timing st \<le> t - start
                        then st\<lparr>step_done := True\<rparr> else st) (steps sq)\<rparr>,
         fold (\<lambda>st. call (callback st))
           (filter (\<lambda>st. \<not> step_done st \<and> ms_timing st \<le> t - start) (steps sq)) ow)"
    using Sequence_update_char [of sq start call t ow]
    by (simp add: step_due_def step_due_def [abs_def])
next
  assume "\<not> step_done st \<and> (\<forall>t' \<in> set pre. t' - start < ms_timing st) \<and>
    ms_timing st \<le> t - start"
  then show "StepData_updates call start (pre @ t # post) st ow =
        (st\<lparr>step_done := True\<rparr>, call (callback st) ow)"
    by (simp add: StepData_updates_first_due)
next
  assume "\<not> step_done st \<and> (\<forall>t' \<in> set ts. t' - start < ms_timing st)"
  then show "StepData_updates call start ts st ow = (st, ow)"
    by (simp add: StepData_updates_pending)
next
  assume "step_done st"
  then show "StepData_updates call start ts st ow = (st, ow)"
    by (rule StepData_updates_done)
next
  show "\<exists>fired. snd (Sequence_updates call ts sq ow) = fold (\<lambda>st. call (callback st)) fired ow \<and>
            mset fired \<subseteq># mset (filter (\<lambda>st. \<not> step_done st) (steps sq))"
    by (rule Sequence_updates_at_most_once)
next
  assume "u_start sq = None"
  then show "Sequence_done sq" by (simp add: Sequence_done_def)
next
  assume "u_start sq = None"
  then show "Sequence_updates call ts sq ow = (sq, ow)" by (rule Sequence_updates_unset)
next
  show "Sequence_done (Sequence_init nm :: 'c Sequence)"
    by (simp add: Sequence_done_def Sequence_init_def)
next
  show "Sequence_done (Sequence_reset sq)"
    by (simp add: Sequence_done_def Sequence_reset_def)
qed

text \<open>
  The witness counts calls: the owner is the log of the callbacks called so far. A
  sequence started at time 0 has steps at 10 and 20 ms; ticks come at 5, 15, 30, 40.
\<close>

theorem sequence_steps_fire_exactly_once_witness:
  "u_start (Sequence_start 0 (Sequence_step 20 (2::nat) (Sequence_step 10 1 (Sequence_init ''w''))))
     = Some 0 \<and>
   (\<not> step_done (StepData_init 10 (1::nat)) \<and>
    5 - 0 < ms_timing (StepData_init 10 (1::nat)) \<and>
    ms_timing (StepData_init 10 (1::nat)) \<le> 15 - 0) \<and>
   step_done ((StepData_init 10 (1::nat))\<lparr>step_done := True\<rparr>) \<and>
   u_start (Sequence_init ''w'' :: nat Sequence) = None \<and>
   snd (Sequence_update (\<lambda>c log. log @ [c]) 15
     (Sequence_start 0 (Sequence_step 20 2 (Sequence_step 10 1 (Sequence_init ''w'')))) []) = [1::nat] \<and>
   StepData_updates (\<lambda>c log. log @ [c]) 0 ([5] @ 15 # [30, 40]) (StepData_init 10 (1::nat)) [] =
     ((StepData_init 10 1)\<lparr>step_done := True\<rparr>, [1]) \<and>
   StepData_updates (\<lambda>c log. log @ [c]) 0 [5] (StepData_init 10 (1::nat)) [] =
     (StepData_init 10 1, []) \<and>
   StepData_updates (\<lambda>c log. log @ [c]) 0 [30, 40] ((StepData_init 10 (1::nat))\<lparr>step_done := True\<rparr>) [1] =
     ((StepData_init 10 1)\<lparr>step_done := True\<rparr>, [1]) \<and>
   Sequence_updates (\<lambda>c log. log @ [c]) [5, 15, 30, 40] (Sequence_init ''w'' :: nat Sequence) [] =
     (Sequence_init ''w'', [])"
proof -
  let ?call = "\<lambda>(c::nat) (log::nat list). log @ [c]"
  let ?st = "StepData_init 10 (1::nat)"
  let ?sq = "Sequence_start 0 (Sequence_step 20 (2::nat) (Sequence_step 10 1 (Sequence_init ''w'')))"
  have h1: "u_start ?sq = Some 0"
    by (simp add: Sequence_start_def)
  have h2: "\<not> step_done ?st \<and> (\<forall>t' \<in> set [5]. t' - 0 < ms_timing ?st) \<and> ms_timing ?st \<le> 15 - 0"
    by (simp add: StepData_init_def)
  have h3: "\<not> step_done ?st \<and> (\<forall>t' \<in> set [5]. t' - 0 < ms_timing ?st)"
    by (simp add: StepData_init_def)
  have h4: "step_done (?st\<lparr>step_done := True\<rparr>)"
    by simp
  have h5: "u_start (Sequence_init ''w'' :: nat Sequence) = None"
    by (simp add: Sequence_init_def)
  have a: "snd (Sequence_update ?call 15 ?sq []) = [1]"
    using h1 sequence_steps_fire_exactly_once [of ?sq 0 ?call 15 "[]"]
    by (simp add: Sequence_start_def Sequence_step_def Sequence_init_def StepData_init_def)
  have b: "StepData_updates ?call 0 ([5] @ 15 # [30, 40]) ?st [] = (?st\<lparr>step_done := True\<rparr>, [1])"
    using h2 sequence_steps_fire_exactly_once [where call = ?call and st = ?st and start = 0
        and pre = "[5]" and t = 15 and post = "[30, 40]" and ow = "[]"]
    by (simp add: StepData_init_def)
  have c: "StepData_updates ?call 0 [5] ?st [] = (?st, [])"
    using h3 sequence_steps_fire_exactly_once [where call = ?call and st = ?st and start = 0
        and ts = "[5]" and ow = "[]"]
    by blast
  have d: "StepData_updates ?call 0 [30, 40] (?st\<lparr>step_done := True\<rparr>) [1] =
      (?st\<lparr>step_done := True\<rparr>, [1])"
    using h4 sequence_steps_fire_exactly_once [where call = ?call
        and st = "?st\<lparr>step_done := True\<rparr>" and start = 0 and ts = "[30, 40]" and ow = "[1]"]
    by blast
  have e: "Sequence_updates ?call [5, 15, 30, 40] (Sequence_init ''w'' :: nat Sequence) [] =
      (Sequence_init ''w'', [])"
    using h5 sequence_steps_fire_exactly_once [where call = ?call
        and sq = "Sequence_init ''w'' :: nat Sequence" and ts = "[5, 15, 30, 40]" and ow = "[]"]
    by blast
  have h2': "\<not> step_done ?st \<and> 5 - 0 < ms_timing ?st \<and> ms_timing ?st \<le> 15 - 0"
    using h2 by simp
  show ?thesis
    using h1 h2' h4 h5 a b c d e by blast
qed

subsection \<open>C8: calls that arrive before the frame interval has elapsed\<close>

text \<open>
  C8 as stated fails: \<^verbatim>\<open>update\<close> advances the sequences before it compares the clock
  with the frame interval. After a blink at time 0 and a processed update at 100, the call
  at 125 is coalesced (25 < 33), yet its reopen step is due (125 \<ge> 120) and runs: the
  left eye's target height goes from 1 back to 80 and the eye is marked open.
\<close>

theorem coalesced_update_runs_due_step:
  "t_now (at_time 125) -
     fps_timer (state_of (update (at_time 100) (blink None None 0 (RoboEyes_init 400 200 30 0 0))))
     < frame_interval
         (state_of (update (at_time 100) (blink None None 0 (RoboEyes_init 400 200 30 0 0)))) \<and>
   eye_l_height_next
     (state_of (update (at_time 100) (blink None None 0 (RoboEyes_init 400 200 30 0 0)))) = 1 \<and>
   \<not> eye_l_open
     (state_of (update (at_time 100) (blink None None 0 (RoboEyes_init 400 200 30 0 0)))) \<and>
   eye_l_height_next
     (state_of (update (at_time 125)
        (state_of (update (at_time 100) (blink None None 0 (RoboEyes_init 400 200 30 0 0))))))
     = 80 \<and>
   eye_l_open
     (state_of (update (at_time 125)
        (state_of (update (at_time 100) (blink None None 0 (RoboEyes_init 400 200 30 0 0))))))"
  by code_simp

text \<open>
  C8, amended. A call of \<^verbatim>\<open>update\<close> that arrives before the frame interval has elapsed
  returns after advancing the sequences and does nothing else: the state differs from the
  one before at most in the list of sequences and in the target heights and open flags
  that reopen steps assign, so no automatic blink or idle move fires, no geometry
  interpolates, the frame timer keeps its value and no wink, confuse or laugh expires.
  When no step of a started sequence is due, the call changes nothing at all.
\<close>

theorem coalesced_update_only_advances_sequences:
  assumes "t_now rd - fps_timer s < frame_interval s"
  shows "update rd s = Returned (Sequences_update (t_seq rd) s) \<and>
    Sequences_update (t_seq rd) s =
      s\<lparr>sequences := sequences (Sequences_update (t_seq rd) s),
        eye_l_height_next := eye_l_height_next (Sequences_update (t_seq rd) s),
        eye_l_open := eye_l_open (Sequences_update (t_seq rd) s),
        eye_r_height_next := eye_r_height_next (Sequences_update (t_seq rd) s),
        eye_r_open := eye_r_open (Sequences_update (t_seq rd) s)\<rparr> \<and>
    (list_all (Sequence_quiet (t_seq rd)) (sequences s) \<longrightarrow> update rd s = Returned s)"
proof (intro conjI impI)
  show u: "update rd s = Returned (Sequences_update (t_seq rd) s)"
    using assms by (rule update_coalesced)
  show "Sequences_update (t_seq rd) s =
      s\<lparr>sequences := sequences (Sequences_update (t_seq rd) s),
        eye_l_height_next := eye_l_height_next (Sequences_update (t_seq rd) s),
        eye_l_open := eye_l_open (Sequences_update (t_seq rd) s),
        eye_r_height_next := eye_r_height_next (Sequences_update (t_seq rd) s),
        eye_r_open := eye_r_open (Sequences_update (t_seq rd) s)\<rparr>"
    by (rule RoboEyes.equality) simp_all
  assume "list_all (Sequence_quiet (t_seq rd)) (sequences s)"
  then show "update rd s = Returned s"
    by (simp add: u Sequences_update_quiet)
qed

text \<open>
  The witness: after a blink at time 0 and a processed update at 100, the call at 110 is
  coalesced and the reopen step is still pending.
\<close>

theorem coalesced_update_only_advances_sequences_witness:
  "t_now (at_time 110) -
     fps_timer (state_of (update (at_time 100) (blink None None 0 (RoboEyes_init 400 200 30 0 0))))
     < frame_interval
         (state_of (update (at_time 100) (blink None None 0 (RoboEyes_init 400 200 30 0 0)))) \<and>
   list_all (Sequence_quiet (t_seq (at_time 110)))
     (sequences
        (state_of (update (at_time 100) (blink None None 0 (RoboEyes_init 400 200 30 0 0))))) \<and>
   update (at_time 110)
     (state_of (update (at_time 100) (blink None None 0 (RoboEyes_init 400 200 30 0 0)))) =
   Returned (state_of (update (at_time 100) (blink None None 0 (RoboEyes_init 400 200 30 0 0))))"
proof -
  let ?s = "state_of (update (at_time 100) (blink None None 0 (RoboEyes_init 400 200 30 0 0)))"
  have h1: "t_now (at_time 110) - fps_timer ?s < frame_interval ?s"
    by code_simp
  have h2: "list_all (Sequence_quiet (t_seq (at_time 110))) (sequences ?s)"
    by code_simp
  show ?thesis
    using h1 h2 coalesced_update_only_advances_sequences [OF h1] by blast
qed

subsection \<open>C1: the halfway interpolation\<close>

text \<open>
  C1 as stated fails. The division of \<^verbatim>\<open>lerp\<close> is Python's \<^verbatim>\<open>//\<close>, which rounds
  down, so a value that approaches its target from below stalls one unit short of it:
  with \<open>width_next = 81\<close> and \<open>width_current = 80\<close> every processed tick leaves the
  current width at 80 (\<open>(80 + 81) div 2 = 80\<close>), although the stated bound
  \<open>\<lceil>log2 1\<rceil> = 0\<close> promises equality at once.
\<close>

theorem width_stalls_one_below_target:
  "eye_l_width_next (eyes_width (Some 81) None (RoboEyes_init 400 200 30 0 0)) = 81 \<and>
   eye_l_width_current (eyes_width (Some 81) None (RoboEyes_init 400 200 30 0 0)) = 80 \<and>
   all_processed [at_time 40, at_time 80, at_time 120]
     (eyes_width (Some 81) None (RoboEyes_init 400 200 30 0 0)) \<and>
   eye_l_width_current
     (updates [at_time 40, at_time 80, at_time 120]
        (eyes_width (Some 81) None (RoboEyes_init 400 200 30 0 0))) = 80 \<and>
   eye_l_width_next
     (updates [at_time 40, at_time 80, at_time 120]
        (eyes_width (Some 81) None (RoboEyes_init 400 200 30 0 0))) = 81 \<and>
   lerp 80 81 = 80"
  by code_simp

text \<open>
  C1, amended. One processed tick replaces \<open>width_current\<close> by
  \<open>(width_current + width_next) div 2\<close> with the division rounding down, and leaves
  \<open>width_next\<close> as it is; after \<open>k\<close> processed ticks the current width is
  \<open>width_next + (width_current - width_next) div 2 ^ k\<close>, which never moves past the
  target. From above (\<open>width_next \<le> width_current\<close>) it equals the target exactly
  when \<open>width_current - width_next < 2 ^ k\<close>, that is from
  \<open>\<lfloor>log2 \<Delta>\<rfloor> + 1\<close> ticks on. From below it never equals the target: it reaches
  \<open>width_next - 1\<close> exactly when \<open>width_next - width_current \<le> 2 ^ k\<close>, that is
  within \<open>\<lceil>log2 \<Delta>\<rceil>\<close> ticks, and stays there. The same one-tick law holds for the
  width and radius of both eyes and for the spacing on every processed tick; for the two
  heights on a tick in which no sequence step is due and no automatic blink fires; and
  for the left eye's x and y on a tick without an idle move and without confuse
  (x) or laugh (y) jitter.
\<close>

theorem halfway_interpolation_law:
  "lerp c n = (c + n) div 2 \<and>
   min c n \<le> lerp_iter k c n \<and> lerp_iter k c n \<le> max c n \<and>
   lerp_iter k c n = n + (c - n) div 2 ^ k \<and>
   (n \<le> c \<longrightarrow> (lerp_iter k c n = n \<longleftrightarrow> c - n < 2 ^ k)) \<and>
   (c < n \<longrightarrow> lerp_iter k c n < n \<and> (lerp_iter k c n = n - 1 \<longleftrightarrow> n - c \<le> 2 ^ k)) \<and>
   (frame_interval s \<le> t_now rd - fps_timer s \<and> update rd s = Returned s' \<longrightarrow>
      eye_l_width_current s' = lerp (eye_l_width_current s) (eye_l_width_next s) \<and>
      eye_l_width_next s' = eye_l_width_next s \<and>
      eye_r_width_current s' = lerp (eye_r_width_current s) (eye_r_width_next s) \<and>
      eye_r_width_next s' = eye_r_width_next s \<and>
      eye_l_radius_current s' = lerp (eye_l_radius_current s) (eye_l_radius_next s) \<and>
      eye_l_radius_next s' = eye_l_radius_next s \<and>
      eye_r_radius_current s' = lerp (eye_r_radius_current s) (eye_r_radius_next s) \<and>
      eye_r_radius_next s' = eye_r_radius_next s \<and>
      space_between_current s' = lerp (space_between_current s) (space_between_next s) \<and>
      space_between_next s' = space_between_next s \<and>
      (list_all (Sequence_quiet (t_seq rd)) (sequences s) \<and>
       \<not> (autoblinker s \<and> u_next_blink s \<le> t_now rd) \<longrightarrow>
         eye_l_height_current s' = lerp (eye_l_height_current s) (eye_l_height_next s) \<and>
         eye_r_height_current s' = lerp (eye_r_height_current s) (eye_r_height_next s)) \<and>
      (\<not> (idle s \<and> u_next_idle s \<le> t_now rd) \<and> \<not> u_confused s \<longrightarrow>
         eye_l_x s' = lerp (eye_l_x s) (eye_l_x_next s)) \<and>
      (\<not> (idle s \<and> u_next_idle s \<le> t_now rd) \<and> \<not> u_laugh s \<longrightarrow>
         eye_l_y s' = lerp (eye_l_y s) (eye_l_y_next s))) \<and>
   (all_processed rds s \<longrightarrow>
      eye_l_width_next (updates rds s) = eye_l_width_next s \<and>
      eye_l_width_current (updates rds s) =
        eye_l_width_next s + (eye_l_width_current s - eye_l_width_next s) div 2 ^ length rds)"
proof -
  have pure: "lerp c n = (c + n) div 2 \<and>
      min c n \<le> lerp_iter k c n \<and> lerp_iter k c n \<le> max c n \<and>
      lerp_iter k c n = n + (c - n) div 2 ^ k"
    using lerp_iter_between [of c n k] by (simp add: lerp_def lerp_iter_closed)
  have above: "n \<le> c \<longrightarrow> (lerp_iter k c n = n \<longleftrightarrow> c - n < 2 ^ k)"
    by (simp add: lerp_iter_from_above)
  have below: "c < n \<longrightarrow> lerp_iter k c n < n \<and> (lerp_iter k c n = n - 1 \<longleftrightarrow> n - c \<le> 2 ^ k)"
    using lerp_iter_from_below [of c n k] by blast
  have tick: "frame_interval s \<le> t_now rd - fps_timer s \<and> update rd s = Returned s' \<longrightarrow>
      eye_l_width_current s' = lerp (eye_l_width_current s) (eye_l_width_next s) \<and>
      eye_l_width_next s' = eye_l_width_next s \<and>
      eye_r_width_current s' = lerp (eye_r_width_current s) (eye_r_width_next s) \<and>
      eye_r_width_next s' = eye_r_width_next s \<and>
      eye_l_radius_current s' = lerp (eye_l_radius_current s) (eye_l_radius_next s) \<and>
      eye_l_radius_next s' = eye_l_radius_next s \<and>
      eye_r_radius_current s' = lerp (eye_r_radius_current s) (eye_r_radius_next s) \<and>
      eye_r_radius_next s' = eye_r_radius_next s \<and>
      space_between_current s' = lerp (space_between_current s) (space_between_next s) \<and>
      space_between_next s' = space_between_next s \<and>
      (list_all (Sequence_quiet (t_seq rd)) (sequences s) \<and>
       \<not> (autoblinker s \<and> u_next_blink s \<le> t_now rd) \<longrightarrow>
         eye_l_height_current s' = lerp (eye_l_height_current s) (eye_l_height_next s) \<and>
         eye_r_height_current s' = lerp (eye_r_height_current s) (eye_r_height_next s)) \<and>
      (\<not> (idle s \<and> u_next_idle s \<le> t_now rd) \<and> \<not> u_confused s \<longrightarrow>
         eye_l_x s' = lerp (eye_l_x s) (eye_l_x_next s)) \<and>
      (\<not> (idle s \<and> u_next_idle s \<le> t_now rd) \<and> \<not> u_laugh s \<longrightarrow>
         eye_l_y s' = lerp (eye_l_y s) (eye_l_y_next s))"
  proof
    assume "frame_interval s \<le> t_now rd - fps_timer s \<and> update rd s = Returned s'"
    then have p: "frame_interval s \<le> t_now rd - fps_timer s" and r: "update rd s = Returned s'"
      by simp_all
    note sz = tick_sizes [OF p r]
    note hs = tick_heights [OF p r]
    note x = tick_left_x [OF p r]
    note y = tick_left_y [OF p r]
    show "eye_l_width_current s' = lerp (eye_l_width_current s) (eye_l_width_next s) \<and>
      eye_l_width_next s' = eye_l_width_next s \<and>
      eye_r_width_current s' = lerp (eye_r_width_current s) (eye_r_width_next s) \<and>
      eye_r_width_next s' = eye_r_width_next s \<and>
      eye_l_radius_current s' = lerp (eye_l_radius_current s) (eye_l_radius_next s) \<and>
      eye_l_radius_next s' = eye_l_radius_next s \<and>
      eye_r_radius_current s' = lerp (eye_r_radius_current s) (eye_r_radius_next s) \<and>
      eye_r_radius_next s' = eye_r_radius_next s \<and>
      space_between_current s' = lerp (space_between_current s) (space_between_next s) \<and>
      space_between_next s' = space_between_next s \<and>
      (list_all (Sequence_quiet (t_seq rd)) (sequences s) \<and>
       \<not> (autoblinker s \<and> u_next_blink s \<le> t_now rd) \<longrightarrow>
         eye_l_height_current s' = lerp (eye_l_height_current s) (eye_l_height_next s) \<and>
         eye_r_height_current s' = lerp (eye_r_height_current s) (eye_r_height_next s)) \<and>
      (\<not> (idle s \<and> u_next_idle s \<le> t_now rd) \<and> \<not> u_confused s \<longrightarrow>
         eye_l_x s' = lerp (eye_l_x s) (eye_l_x_next s)) \<and>
      (\<not> (idle s \<and> u_next_idle s \<le> t_now rd) \<and> \<not> u_laugh s \<longrightarrow>
         eye_l_y s' = lerp (eye_l_y s) (eye_l_y_next s))"
      using sz hs x y by blast
  qed
  have many: "all_processed rds s \<longrightarrow>
      eye_l_width_next (updates rds s) = eye_l_width_next s \<and>
      eye_l_width_current (updates rds s) =
        eye_l_width_next s + (eye_l_width_current s - eye_l_width_next s) div 2 ^ length rds"
    using ticks_left_width [of rds s] by (simp add: lerp_iter_closed)
  show ?thesis
    using pure above below tick many by blast
qed

text \<open>
  The witness: the iterates from 4 down to 0 (reached after three steps, not after two)
  and from 0 up towards 1 (never reached), and the left eye of a fresh engine narrowing
  from 80 towards its new width 40 over one and over three processed ticks.
\<close>

theorem halfway_interpolation_law_witness:
  "(0::int) \<le> 4 \<and> lerp_iter 3 4 0 = 0 \<and> lerp_iter 2 4 0 \<noteq> 0 \<and>
   (0::int) < 1 \<and> lerp_iter 5 0 1 = 0 \<and>
   frame_interval (eyes_width (Some 40) None (RoboEyes_init 400 200 30 0 0)) \<le>
     t_now (at_time 40) - fps_timer (eyes_width (Some 40) None (RoboEyes_init 400 200 30 0 0)) \<and>
   update (at_time 40) (eyes_width (Some 40) None (RoboEyes_init 400 200 30 0 0)) =
     Returned (state_of (update (at_time 40)
        (eyes_width (Some 40) None (RoboEyes_init 400 200 30 0 0)))) \<and>
   (list_all (Sequence_quiet (t_seq (at_time 40)))
      (sequences (eyes_width (Some 40) None (RoboEyes_init 400 200 30 0 0))) \<and>
    \<not> (autoblinker (eyes_width (Some 40) None (RoboEyes_init 400 200 30 0 0)) \<and>
       u_next_blink (eyes_width (Some 40) None (RoboEyes_init 400 200 30 0 0))
         \<le> t_now (at_time 40))) \<and>
   (\<not> (idle (eyes_width (Some 40) None (RoboEyes_init 400 200 30 0 0)) \<and>
       u_next_idle (eyes_width (Some 40) None (RoboEyes_init 400 200 30 0 0))
         \<le> t_now (at_time 40)) \<and>
    \<not> u_confused (eyes_width (Some 40) None (RoboEyes_init 400 200 30 0 0)) \<and>
    \<not> u_laugh (eyes_width (Some 40) None (RoboEyes_init 400 200 30 0 0))) \<and>
   all_processed [at_time 40, at_time 80, at_time 120]
     (eyes_width (Some 40) None (RoboEyes_init 400 200 30 0 0)) \<and>
   eye_l_width_current (state_of (update (at_time 40)
      (eyes_width (Some 40) None (RoboEyes_init 400 200 30 0 0)))) = 60 \<and>
   eye_l_height_current (state_of (update (at_time 40)
      (eyes_width (Some 40) None (RoboEyes_init 400 200 30 0 0)))) = 80 \<and>
   eye_l_x (state_of (update (at_time 40)
      (eyes_width (Some 40) None (RoboEyes_init 400 200 30 0 0)))) = 90 \<and>
   eye_l_y (state_of (update (at_time 40)
      (eyes_width (Some 40) None (RoboEyes_init 400 200 30 0 0)))) = 60 \<and>
   eye_l_width_current (updates [at_time 40, at_time 80, at_time 120]
      (eyes_width (Some 40) None (RoboEyes_init 400 200 30 0 0))) = 45"
proof -
  let ?s = "eyes_width (Some 40) None (RoboEyes_init 400 200 30 0 0)"
  let ?rd = "at_time 40"
  let ?s' = "state_of (update ?rd ?s)"
  let ?rds = "[at_time 40, at_time 80, at_time 120]"
  have a1: "(0::int) \<le> 4" and b1: "(0::int) < 1" by simp_all
  have a2: "lerp_iter 3 4 0 = 0"
    using a1 halfway_interpolation_law [of 4 0 3 ?s ?rd ?s' ?rds] by simp
  have a3: "lerp_iter 2 4 0 \<noteq> 0"
    using a1 halfway_interpolation_law [of 4 0 2 ?s ?rd ?s' ?rds] by simp
  have b2: "lerp_iter 5 0 1 = 0"
    using b1 halfway_interpolation_law [of 0 1 5 ?s ?rd ?s' ?rds] by simp
  have p: "frame_interval ?s \<le> t_now ?rd - fps_timer ?s" by code_simp
  have r: "update ?rd ?s = Returned ?s'"
    by (rule update_returns) (simp_all add: eyes_width_def init_simps)
  have q: "list_all (Sequence_quiet (t_seq ?rd)) (sequences ?s) \<and>
      \<not> (autoblinker ?s \<and> u_next_blink ?s \<le> t_now ?rd)" by code_simp
  have i: "\<not> (idle ?s \<and> u_next_idle ?s \<le> t_now ?rd) \<and> \<not> u_confused ?s \<and> \<not> u_laugh ?s"
    by code_simp
  have ap: "all_processed ?rds ?s" by code_simp
  note law = halfway_interpolation_law [of 4 0 3 ?s ?rd ?s' ?rds]
  have v: "eye_l_width_current ?s = 80 \<and> eye_l_width_next ?s = 40 \<and>
      eye_l_height_current ?s = 80 \<and> eye_l_height_next ?s = 80 \<and>
      eye_l_x ?s = 90 \<and> eye_l_x_next ?s = 90 \<and> eye_l_y ?s = 60 \<and> eye_l_y_next ?s = 60"
    by code_simp
  have c1: "eye_l_width_current ?s' = 60"
    using law p r v by (simp add: lerp_def)
  have c2: "eye_l_height_current ?s' = 80"
    using law p r q v by (simp add: lerp_def)
  have c3: "eye_l_x ?s' = 90"
    using law p r i v by (simp add: lerp_def)
  have c4: "eye_l_y ?s' = 60"
    using law p r i v by (simp add: lerp_def)
  have c5: "eye_l_width_current (updates ?rds ?s) = 45"
    using law ap v by simp
  show ?thesis
    using a1 a2 a3 b1 b2 p r q i ap c1 c2 c3 c4 c5 by blast
qed

subsection \<open>C5: the round trip of a blink\<close>

text \<open>
  C5. The claim says that triggering a blink marks the targeted eyes closed. The call
  \<^verbatim>\<open>blink()\<close> without arguments targets both eyes, and on an engine with two eyes
  it sets both target heights to 1 and marks the left eye closed, but it assigns
  \<^verbatim>\<open>eye_r_open = not self._cyclops\<close>, which is \<^verbatim>\<open>True\<close>: the right eye is left
  flagged open while it closes. The explicit call \<^verbatim>\<open>blink(left=True, right=True)\<close>
  on the same engine marks the right eye closed.
\<close>

theorem blink_without_arguments_flags_right_eye_open:
  "\<not> u_cyclops (RoboEyes_init 400 200 30 0 0) \<and>
   eye_l_height_next (blink None None 0 (RoboEyes_init 400 200 30 0 0)) = 1 \<and>
   eye_r_height_next (blink None None 0 (RoboEyes_init 400 200 30 0 0)) = 1 \<and>
   \<not> eye_l_open (blink None None 0 (RoboEyes_init 400 200 30 0 0)) \<and>
   eye_r_open (blink None None 0 (RoboEyes_init 400 200 30 0 0)) \<and>
   \<not> eye_r_open (blink (Some True) (Some True) 0 (RoboEyes_init 400 200 30 0 0))"
  by code_simp

subsection \<open>C7: winking in cyclops mode\<close>

text \<open>
  C7 as stated fails: in cyclops mode \<^verbatim>\<open>wink_right\<close> calls \<^verbatim>\<open>blink(right=True)\<close>,
  and \<^verbatim>\<open>blink\<close> closes the right eye only when the engine is not in cyclops mode, so
  the single eye stays as it was: its target height is still 80 and it is still marked
  open.
\<close>

theorem cyclops_wink_right_does_not_close_the_eye:
  "u_cyclops (set_cyclops True (RoboEyes_init 400 200 30 0 0)) \<and>
   eye_l_height_next (set_cyclops True (RoboEyes_init 400 200 30 0 0)) = 80 \<and>
   eye_l_height_next (state_of (wink_right 0 (set_cyclops True (RoboEyes_init 400 200 30 0 0)))) = 80 \<and>
   eye_l_open (state_of (wink_right 0 (set_cyclops True (RoboEyes_init 400 200 30 0 0))))"
  by code_simp

text \<open>
  C7, amended. With cyclops mode enabled, \<^verbatim>\<open>wink_left\<close> degrades to a blink of the
  single (left) eye: its target height is set to the minimum 1, it is marked closed, and
  an update whose sequence clock is at least 120 ms after the call restores the target
  height to the left default and marks the eye open (when no automatic blink fires in
  that update). \<^verbatim>\<open>wink_right\<close> degrades to \<^verbatim>\<open>blink(right=True)\<close>, which is a no-op on
  the eyes: it only appends a started one-step sequence whose callback changes nothing
  while cyclops mode is on. A direct \<^verbatim>\<open>wink\<close> and a \<^verbatim>\<open>blink\<close> with explicit sides leave
  the right eye's target height and open flag as they are.
\<close>

theorem cyclops_wink_helpers:
  assumes "u_cyclops s"
  shows
    "wink_left now s = Returned (blink (Some True) None now s) \<and>
     eye_l_height_next (state_of (wink_left now s)) = 1 \<and>
     \<not> eye_l_open (state_of (wink_left now s)) \<and>
     (120 \<le> t_seq rd - now \<and> \<not> (autoblinker s \<and> u_next_blink s \<le> t_now rd) \<longrightarrow>
        eye_l_height_next (state_of (update rd (state_of (wink_left now s)))) =
          eye_l_height_default s \<and>
        eye_l_open (state_of (update rd (state_of (wink_left now s))))) \<and>
     wink_right now s = Returned (blink None (Some True) now s) \<and>
     state_of (wink_right now s) =
       s\<lparr>sequences := sequences s @
           [Sequence_start now (Sequence_step 120 (Reopen False True) (Sequence_init ''blink''))]\<rparr> \<and>
     call_closure (Reopen False True) s = s \<and>
     eye_r_height_next (state_of (wink l r now s)) = eye_r_height_next s \<and>
     eye_r_open (state_of (wink l r now s)) = eye_r_open s \<and>
     (l \<noteq> None \<or> r \<noteq> None \<longrightarrow>
        eye_r_height_next (blink l r now s) = eye_r_height_next s \<and>
        eye_r_open (blink l r now s) = eye_r_open s)"
proof -
  have wl: "wink_left now s = Returned (blink (Some True) None now s)"
    using assms by (simp add: wink_left_def)
  have wr: "wink_right now s = Returned (blink None (Some True) now s)"
    using assms by (simp add: wink_right_def)
  have closed: "eye_l_height_next (blink (Some True) None now s) = 1 \<and>
      \<not> eye_l_open (blink (Some True) None now s)"
    by (simp add: blink_left_only)
  have reopened: "120 \<le> t_seq rd - now \<and> \<not> (autoblinker s \<and> u_next_blink s \<le> t_now rd) \<longrightarrow>
        eye_l_height_next (state_of (update rd (blink (Some True) None now s))) =
          eye_l_height_default s \<and>
        eye_l_open (state_of (update rd (blink (Some True) None now s)))"
    using left_reopens_after_delay [of rd now s] by blast
  have noop: "blink None (Some True) now s =
       s\<lparr>sequences := sequences s @
           [Sequence_start now (Sequence_step 120 (Reopen False True) (Sequence_init ''blink''))]\<rparr>"
    using assms by (rule blink_right_only_cyclops)
  have cb: "call_closure (Reopen False True) s = s"
    using assms by (simp add: reopen_right_cyclops)
  have w: "eye_r_height_next (state_of (wink l r now s)) = eye_r_height_next s \<and>
     eye_r_open (state_of (wink l r now s)) = eye_r_open s"
    using assms by (simp add: wink_def Let_def)
  have b: "l \<noteq> None \<or> r \<noteq> None \<longrightarrow>
        eye_r_height_next (blink l r now s) = eye_r_height_next s \<and>
        eye_r_open (blink l r now s) = eye_r_open s"
    using assms by (auto simp: blink_def Let_def)
  show ?thesis
    using wl wr closed reopened noop cb w b by simp
qed

text \<open>
  The witness: a fresh engine switched to cyclops mode, a wink at time 0 and an update
  at 130 ms.
\<close>

theorem cyclops_wink_helpers_witness:
  "u_cyclops (set_cyclops True (RoboEyes_init 400 200 30 0 0)) \<and>
   (120 \<le> t_seq (at_time 130) - 0 \<and>
    \<not> (autoblinker (set_cyclops True (RoboEyes_init 400 200 30 0 0)) \<and>
       u_next_blink (set_cyclops True (RoboEyes_init 400 200 30 0 0)) \<le> t_now (at_time 130))) \<and>
   Some True \<noteq> (None :: bool option) \<and>
   eye_l_height_next (state_of (wink_left 0 (set_cyclops True (RoboEyes_init 400 200 30 0 0)))) = 1 \<and>
   \<not> eye_l_open (state_of (wink_left 0 (set_cyclops True (RoboEyes_init 400 200 30 0 0)))) \<and>
   eye_l_height_next (state_of (update (at_time 130)
     (state_of (wink_left 0 (set_cyclops True (RoboEyes_init 400 200 30 0 0)))))) = 80 \<and>
   eye_l_open (state_of (update (at_time 130)
     (state_of (wink_left 0 (set_cyclops True (RoboEyes_init 400 200 30 0 0)))))) \<and>
   eye_r_open (blink None (Some True) 0 (set_cyclops True (RoboEyes_init 400 200 30 0 0)))"
proof -
  let ?s = "set_cyclops True (RoboEyes_init 400 200 30 0 0)"
  have h1: "u_cyclops ?s" by code_simp
  have h2: "120 \<le> t_seq (at_time 130) - 0 \<and>
      \<not> (autoblinker ?s \<and> u_next_blink ?s \<le> t_now (at_time 130))" by code_simp
  have h3: "(None :: bool option) \<noteq> None \<or> Some True \<noteq> None" by simp
  have v: "eye_l_height_default ?s = 80 \<and> eye_r_open ?s" by code_simp
  note th = cyclops_wink_helpers [OF h1, of 0 "at_time 130" None "Some True"]
  from th have c1: "eye_l_height_next (state_of (wink_left 0 ?s)) = 1"
    by blast
  from th have c2: "\<not> eye_l_open (state_of (wink_left 0 ?s))"
    by blast
  from th h2 have c3: "eye_l_height_next (state_of (update (at_time 130)
      (state_of (wink_left 0 ?s)))) = eye_l_height_default ?s"
    by blast
  from th h2 have c4: "eye_l_open (state_of (update (at_time 130) (state_of (wink_left 0 ?s))))"
    by blast
  from th h3 have c5: "eye_r_open (blink None (Some True) 0 ?s) = eye_r_open ?s"
    by blast
  from c3 v have c3': "eye_l_height_next (state_of (update (at_time 130)
      (state_of (wink_left 0 ?s)))) = 80"
    by (simp only:)
  from c5 v have c5': "eye_r_open (blink None (Some True) 0 ?s)"
    by (simp only:)
  have h3': "Some True \<noteq> (None :: bool option)" by simp
  show ?thesis
    using h1 h2 h3' c1 c2 c3' c4 c5' by blast
qed

subsection \<open>C6: the current height of an eye\<close>

text \<open>
  C6 as stated fails. In cyclops mode \<^verbatim>\<open>blink()\<close> assigns the right eye the target
  height 0 (\<^verbatim>\<open>1 if not self._cyclops else 0\<close>), the reopen step skips the right eye
  in cyclops mode, and seven processed ticks take the right eye's current height from
  80 through 40, 20, 10, 5, 2 and 1 to 0.
\<close>

theorem cyclops_blink_drives_right_height_to_zero:
  "eye_r_height_current
     (run_ops [Set_cyclops True, Blink None None 0,
               Update (at_time 40), Update (at_time 80), Update (at_time 120),
               Update (at_time 160), Update (at_time 200), Update (at_time 240),
               Update (at_time 280)]
        (RoboEyes_init 400 200 30 0 0)) = 0"
  by code_simp

text \<open>
  C6, amended. In every state that a run of public operations and update ticks reaches
  from a freshly constructed engine, the left eye's current height is at least 1,
  provided no call of \<^verbatim>\<open>eyes_height\<close> configures a height below 1; under the same
  proviso the right eye's current height is at least 1 as long as cyclops mode is never
  switched on. (The engine does not check configured heights, and in cyclops mode a
  blink gives the right eye, which is not drawn then, the target height 0.)
\<close>

theorem eye_heights_stay_at_least_one:
  "(list_all heights_ok ops \<longrightarrow>
      1 \<le> eye_l_height_current (run_ops ops (RoboEyes_init w h fr tb ti))) \<and>
   (list_all heights_ok ops \<and> list_all (\<lambda>x. \<not> enables_cyclops x) ops \<longrightarrow>
      1 \<le> eye_r_height_current (run_ops ops (RoboEyes_init w h fr tb ti)))"
proof (intro conjI impI)
  assume "list_all heights_ok ops"
  then have "left_heights_ge1 (run_ops ops (RoboEyes_init w h fr tb ti))"
    by (intro left_heights_run init_heights)
  then show "1 \<le> eye_l_height_current (run_ops ops (RoboEyes_init w h fr tb ti))"
    by (simp add: left_heights_ge1_def)
next
  assume "list_all heights_ok ops \<and> list_all (\<lambda>x. \<not> enables_cyclops x) ops"
  then have "right_heights_ge1 (run_ops ops (RoboEyes_init w h fr tb ti))"
    by (intro right_heights_run init_heights) simp_all
  then show "1 \<le> eye_r_height_current (run_ops ops (RoboEyes_init w h fr tb ti))"
    by (simp add: right_heights_ge1_def)
qed

text \<open>
  The witness: a run that reconfigures the heights, blinks, winks and ticks.
\<close>

theorem eye_heights_stay_at_least_one_witness:
  "list_all heights_ok
     [Eyes_height (Some 3) (Some 1), Blink None None 0, Update (at_time 40),
      Update (at_time 200), Wink_right 210, Update (at_time 600)] \<and>
   list_all (\<lambda>x. \<not> enables_cyclops x)
     [Eyes_height (Some 3) (Some 1), Blink None None 0, Update (at_time 40),
      Update (at_time 200), Wink_right 210, Update (at_time 600)] \<and>
   1 \<le> eye_l_height_current
     (run_ops [Eyes_height (Some 3) (Some 1), Blink None None 0, Update (at_time 40),
               Update (at_time 200), Wink_right 210, Update (at_time 600)]
        (RoboEyes_init 400 200 30 0 0)) \<and>
   1 \<le> eye_r_height_current
     (run_ops [Eyes_height (Some 3) (Some 1), Blink None None 0, Update (at_time 40),
               Update (at_time 200), Wink_right 210, Update (at_time 600)]
        (RoboEyes_init 400 200 30 0 0))"
proof -
  let ?ops = "[Eyes_height (Some 3) (Some 1), Blink None None 0, Update (at_time 40),
      Update (at_time 200), Wink_right 210, Update (at_time 600)]"
  have h1: "list_all heights_ok ?ops" by simp
  have h2: "list_all (\<lambda>x. \<not> enables_cyclops x) ?ops" by simp
  show ?thesis
    using h1 h2 eye_heights_stay_at_least_one [of ?ops 400 200 30 0 0] by blast
qed

end
